theory Spec2Isabelle
  imports Complex_Main "HOL-Library.Sublist" "HOL-Library.Log_Nat"
begin

section \<open>The query engine of getDataByPerspective (optimised variant)\<close>

text \<open>
  The engine is the AppleScript text that \<open>generateOptimizedGetDataByPerspectiveScript\<close>
  assembles from the caller's parameters, together with the TypeScript function
  \<open>getDataByPerspective\<close> that runs it and reads its answer. The embedding has three layers:
  \<^item> the parameters and the values the template interpolates into the script;
  \<^item> the script's scan over the flattened tasks and projects of the document;
  \<^item> the TypeScript wrapper around the external call.

  Conventions of the embedding.
  \<^item> Numbers are integers: estimated minutes and the result budget are \<open>int\<close>, a budget
    being an integer that a double holds exactly. The products \<open>maxResults * 0.4\<close> and
    \<open>maxResults * 0.2\<close> are double products: the exact product is rounded to 53 significant
    bits, ties to even, before \<open>Math.floor\<close> is taken (\<open>div\<close> on \<open>int\<close> rounds down, as
    \<open>Math.floor\<close> does).
  \<^item> A text is the list of the bytes of its UTF-8 form.
  \<^item> A date is its number of seconds; the difference of two dates is in seconds and
    \<open>days\<close> is 86400. \<open>current date\<close> is one fixed reading for the whole scan.
  \<^item> A property that the script reads inside a \<open>try\<close> block has three outcomes: the read
    raises, it yields \<open>missing value\<close>, or it yields a value. Properties read outside any
    \<open>try\<close> block are plain fields.
  \<^item> Text comparison (\<open>is\<close>, \<open>is not\<close>) is equality of texts. AppleScript compares text
    ignoring letter case unless told otherwise, so a name here stands for its class under
    that comparison. A text literal of the script denotes the text that was escaped into it.
  \<^item> The JSON text the script prints is represented by the values it is made of.
  \<^item> The selection of the perspective in front of the scan and the handler around the
    whole script are left out: the properties are about the scan and the answer it builds,
    and about what the wrapper does with any output of the provider.
\<close>

subsection \<open>Parameters and interpolated values\<close>

record GetDataByPerspectiveParams =
  perspectiveName :: string
  hideCompleted :: "bool option"
  hideRecurringDuplicates :: "bool option"
  minEstimatedMinutes :: "int option"
  maxEstimatedMinutes :: "int option"
  flaggedOnly :: "bool option"
  withTags :: "string list option"
  withDueDate :: "bool option"
  projectName :: "string option"
  maxResults :: "int option"
  prioritizeUrgent :: "bool option"

text \<open>The script, as the values of the holes of its template.\<close>

record script =
  lit_perspectiveName :: string
  lit_projectName :: string
  lit_flaggedOnly :: bool
  blk_minEstimatedMinutes :: "int option"
  blk_maxEstimatedMinutes :: "int option"
  blk_withDueDate :: "bool option"
  lit_hideCompleted :: bool
  maxHighPriority :: int
  maxMediumPriority :: int
  maxLowPriority :: int
  lit_prioritizeUrgent :: bool
  lit_maxResults :: int

text \<open>A destructuring default applies when the field is \<open>undefined\<close>.\<close>

definition default_to :: "'a \<Rightarrow> 'a option \<Rightarrow> 'a" where
  "default_to d v = (case v of None \<Rightarrow> d | Some x \<Rightarrow> x)"

text \<open>\<open>n ? block : ''\<close> on an optional number: the block is there when the number is
  neither \<open>undefined\<close> nor zero.\<close>

definition truthy_number :: "int option \<Rightarrow> int option" where
  "truthy_number v = (case v of None \<Rightarrow> None | Some n \<Rightarrow> if n = 0 then None else Some n)"

text \<open>The double nearest to \<open>n / 2 ^ k\<close> is \<open>to_double n / 2 ^ k\<close>: a number of at most 53
  bits is a double as it is; a longer one loses its low bits, rounded to the nearest
  multiple, to the even one of two equally near. (The exponent range of a double plays no
  part for the product of an integer and a constant between 0 and 1.)\<close>

definition round_half_even :: "int \<Rightarrow> nat \<Rightarrow> int" where
  "round_half_even n s =
    (let q = n div 2 ^ s; r = n mod 2 ^ s
     in if 2 * r < 2 ^ s then q
        else if 2 ^ s < 2 * r then q + 1
        else if even q then q else q + 1)"

definition to_double :: "int \<Rightarrow> int" where
  "to_double n =
    (if bitlen \<bar>n\<bar> \<le> 53 then n
     else round_half_even n (nat (bitlen \<bar>n\<bar> - 53)) * 2 ^ nat (bitlen \<bar>n\<bar> - 53))"

text \<open>The literal \<open>0.4\<close> is the double \<open>3602879701896397 / 2 ^ 53\<close> and \<open>0.2\<close> is
  \<open>3602879701896397 / 2 ^ 54\<close>. \<open>Math.floor(maxResults * 0.4)\<close> and
  \<open>Math.floor(maxResults * 0.2)\<close>:\<close>

definition floor_times_0_4 :: "int \<Rightarrow> int" where
  "floor_times_0_4 maxResults' = to_double (maxResults' * 3602879701896397) div 2 ^ 53"

definition floor_times_0_2 :: "int \<Rightarrow> int" where
  "floor_times_0_2 maxResults' = to_double (maxResults' * 3602879701896397) div 2 ^ 54"

definition generateOptimizedGetDataByPerspectiveScript ::
  "GetDataByPerspectiveParams \<Rightarrow> script" where
  "generateOptimizedGetDataByPerspectiveScript params =
    (let hideCompleted' = default_to True (hideCompleted params);
         flaggedOnly' = default_to False (flaggedOnly params);
         maxResults' = default_to 500 (maxResults params);
         prioritizeUrgent' = default_to True (prioritizeUrgent params)
     in \<lparr> lit_perspectiveName = perspectiveName params,
          lit_projectName = default_to [] (projectName params),
          lit_flaggedOnly = flaggedOnly',
          blk_minEstimatedMinutes = truthy_number (minEstimatedMinutes params),
          blk_maxEstimatedMinutes = truthy_number (maxEstimatedMinutes params),
          blk_withDueDate = withDueDate params,
          lit_hideCompleted = hideCompleted',
          maxHighPriority = floor_times_0_4 maxResults',
          maxMediumPriority = floor_times_0_4 maxResults',
          maxLowPriority = floor_times_0_2 maxResults',
          lit_prioritizeUrgent = prioritizeUrgent',
          lit_maxResults = maxResults' \<rparr>)"

subsection \<open>The records of the document\<close>

datatype 'a property = Raised | MissingValue | Got 'a

record task =
  t_id :: string
  t_name :: string
  t_note :: string
  t_completed :: bool
  t_dropped :: bool
  t_flagged :: bool
  t_estimated_minutes :: "int property"
  t_due_date :: "int property"
  t_defer_date :: "int property"
  t_tags :: "string list property"
  t_containing_project :: "string property"

datatype project_status = active_status | on_hold_status | done_status | dropped_status

record project =
  p_id :: string
  p_name :: string
  p_status :: project_status
  p_flagged :: bool
  p_estimated_minutes :: "int property"
  p_due_date :: "int property"
  p_flattened_tasks :: "nat property"

subsection \<open>The predicate pipeline\<close>

definition projectNameFilter :: "script \<Rightarrow> task \<Rightarrow> bool" where
  "projectNameFilter s aTask =
    (if lit_projectName s \<noteq> [] then
       (case t_containing_project aTask of
          Got taskProjectName \<Rightarrow> \<not> (taskProjectName \<noteq> lit_projectName s)
        | MissingValue \<Rightarrow> False
        | Raised \<Rightarrow> False)
     else True)"

definition flaggedOnlyFilter :: "script \<Rightarrow> task \<Rightarrow> bool" where
  "flaggedOnlyFilter s aTask = (if lit_flaggedOnly s then t_flagged aTask else True)"

definition minEstimatedMinutesFilter :: "script \<Rightarrow> task \<Rightarrow> bool" where
  "minEstimatedMinutesFilter s aTask =
    (case blk_minEstimatedMinutes s of
       None \<Rightarrow> True
     | Some m \<Rightarrow>
        (case t_estimated_minutes aTask of
           Got taskEstimatedMinutes \<Rightarrow> \<not> (taskEstimatedMinutes < m)
         | MissingValue \<Rightarrow> False
         | Raised \<Rightarrow> False))"

definition maxEstimatedMinutesFilter :: "script \<Rightarrow> task \<Rightarrow> bool" where
  "maxEstimatedMinutesFilter s aTask =
    (case blk_maxEstimatedMinutes s of
       None \<Rightarrow> True
     | Some m \<Rightarrow>
        (case t_estimated_minutes aTask of
           Got taskEstimatedMinutes \<Rightarrow> \<not> (taskEstimatedMinutes > m)
         | MissingValue \<Rightarrow> True
         | Raised \<Rightarrow> True))"

definition withDueDateFilter :: "script \<Rightarrow> task \<Rightarrow> bool" where
  "withDueDateFilter s aTask =
    (case blk_withDueDate s of
       None \<Rightarrow> True
     | Some w \<Rightarrow>
        (case t_due_date aTask of
           Got taskDueDate \<Rightarrow> w
         | MissingValue \<Rightarrow> \<not> w
         | Raised \<Rightarrow> \<not> w))"

definition hideCompletedFilter :: "script \<Rightarrow> task \<Rightarrow> bool" where
  "hideCompletedFilter s aTask =
    (if lit_hideCompleted s then \<not> (t_completed aTask \<or> t_dropped aTask) else True)"

text \<open>The filters in the order of the script; a task that fails one goes to the next
  iteration without reaching the later ones.\<close>

definition shouldInclude :: "script \<Rightarrow> task \<Rightarrow> bool" where
  "shouldInclude s aTask =
    (if \<not> projectNameFilter s aTask then False
     else if \<not> flaggedOnlyFilter s aTask then False
     else if \<not> minEstimatedMinutesFilter s aTask then False
     else if \<not> maxEstimatedMinutesFilter s aTask then False
     else if \<not> withDueDateFilter s aTask then False
     else if \<not> hideCompletedFilter s aTask then False
     else True)"

subsection \<open>Urgency score and priority level\<close>

definition daysDiff :: "int \<Rightarrow> int \<Rightarrow> rat" where
  "daysDiff taskDueDate currentDate = of_int (taskDueDate - currentDate) / 86400"

definition flaggedScore :: "task \<Rightarrow> int" where
  "flaggedScore aTask = (if t_flagged aTask then 100 else 0)"

definition dueDateScore :: "int \<Rightarrow> task \<Rightarrow> int" where
  "dueDateScore currentDate aTask =
    (case t_due_date aTask of
       Got taskDueDate \<Rightarrow>
         (if daysDiff taskDueDate currentDate < 0 then 200
          else if daysDiff taskDueDate currentDate < 1 then 150
          else if daysDiff taskDueDate currentDate < 2 then 100
          else if daysDiff taskDueDate currentDate < 8 then 50
          else 0)
     | MissingValue \<Rightarrow> 0
     | Raised \<Rightarrow> 0)"

definition estimatedMinutesScore :: "task \<Rightarrow> int" where
  "estimatedMinutesScore aTask =
    (case t_estimated_minutes aTask of
       Got taskEstimatedMinutes \<Rightarrow>
         (if taskEstimatedMinutes \<le> 15 then 30
          else if taskEstimatedMinutes \<le> 30 then 20
          else if taskEstimatedMinutes \<le> 60 then 10
          else 0)
     | MissingValue \<Rightarrow> 0
     | Raised \<Rightarrow> 0)"

text \<open>\<open>urgencyScore\<close> starts at 0 and is increased three times in a row.\<close>

definition urgencyScore :: "int \<Rightarrow> task \<Rightarrow> int" where
  "urgencyScore currentDate aTask =
    (let score0 = 0;
         score1 = score0 + flaggedScore aTask;
         score2 = score1 + dueDateScore currentDate aTask;
         score3 = score2 + estimatedMinutesScore aTask
     in score3)"

datatype priority = high | medium | low

definition priorityLevel :: "int \<Rightarrow> priority" where
  "priorityLevel score =
    (if score \<ge> 150 then high else if score \<ge> 50 then medium else low)"

subsection \<open>The entries of the answer\<close>

record task_entry =
  e_id :: string
  e_name :: string
  e_completed :: bool
  e_flagged :: bool
  e_estimatedMinutes :: "int option"
  e_dueDate :: "int option"
  e_deferDate :: "int option"
  e_tags :: string
  e_projectName :: "string option"
  e_note :: string
  e_urgencyScore :: int
  e_priorityLevel :: priority

record project_entry =
  pe_id :: string
  pe_name :: string
  pe_status :: project_status
  pe_flagged :: bool
  pe_estimatedMinutes :: "int option"
  pe_dueDate :: "int option"
  pe_taskCount :: nat

text \<open>A value read in a \<open>try\<close> block replaces the preset \<open>null\<close> only when it is there.\<close>

definition or_null :: "'a property \<Rightarrow> 'a option" where
  "or_null v = (case v of Got x \<Rightarrow> Some x | MissingValue \<Rightarrow> None | Raised \<Rightarrow> None)"

definition taskTagsStr :: "task \<Rightarrow> string" where
  "taskTagsStr aTask =
    (case t_tags aTask of
       Got taskTags \<Rightarrow>
         foldl (\<lambda>str tagName. if str = [] then tagName else str @ '','' @ tagName) [] taskTags
     | MissingValue \<Rightarrow> []
     | Raised \<Rightarrow> [])"

definition taskInfo :: "int \<Rightarrow> task \<Rightarrow> task_entry" where
  "taskInfo currentDate aTask =
    \<lparr> e_id = t_id aTask,
      e_name = t_name aTask,
      e_completed = t_completed aTask,
      e_flagged = t_flagged aTask,
      e_estimatedMinutes = or_null (t_estimated_minutes aTask),
      e_dueDate = or_null (t_due_date aTask),
      e_deferDate = or_null (t_defer_date aTask),
      e_tags = taskTagsStr aTask,
      e_projectName = or_null (t_containing_project aTask),
      e_note = t_note aTask,
      e_urgencyScore = urgencyScore currentDate aTask,
      e_priorityLevel = priorityLevel (urgencyScore currentDate aTask) \<rparr>"

definition projectInfo :: "project \<Rightarrow> project_entry" where
  "projectInfo aProject =
    \<lparr> pe_id = p_id aProject,
      pe_name = p_name aProject,
      pe_status = p_status aProject,
      pe_flagged = p_flagged aProject,
      pe_estimatedMinutes = or_null (p_estimated_minutes aProject),
      pe_dueDate = or_null (p_due_date aProject),
      pe_taskCount = (case p_flattened_tasks aProject of Got n \<Rightarrow> n | MissingValue \<Rightarrow> 0 | Raised \<Rightarrow> 0) \<rparr>"

subsection \<open>The quota collector and the scan\<close>

record collector =
  highPriorityTasks :: "task_entry list"
  mediumPriorityTasks :: "task_entry list"
  lowPriorityTasks :: "task_entry list"
  highCount :: int
  mediumCount :: int
  lowCount :: int

definition initial :: collector where
  "initial = \<lparr> highPriorityTasks = [], mediumPriorityTasks = [], lowPriorityTasks = [],
               highCount = 0, mediumCount = 0, lowCount = 0 \<rparr>"

text \<open>The test in front of every iteration that ends the loop.\<close>

definition allFull :: "script \<Rightarrow> collector \<Rightarrow> bool" where
  "allFull s c =
    (highCount c \<ge> maxHighPriority s \<and> mediumCount c \<ge> maxMediumPriority s
      \<and> lowCount c \<ge> maxLowPriority s)"

text \<open>The rest of one iteration: filters, score, level, quota, append.\<close>

definition visit :: "script \<Rightarrow> int \<Rightarrow> collector \<Rightarrow> task \<Rightarrow> collector" where
  "visit s currentDate c aTask =
    (if \<not> shouldInclude s aTask then c
     else
       let level = priorityLevel (urgencyScore currentDate aTask) in
       if level = high \<and> highCount c < maxHighPriority s then
         c\<lparr> highCount := highCount c + 1,
            highPriorityTasks := highPriorityTasks c @ [taskInfo currentDate aTask] \<rparr>
       else if level = medium \<and> mediumCount c < maxMediumPriority s then
         c\<lparr> mediumCount := mediumCount c + 1,
            mediumPriorityTasks := mediumPriorityTasks c @ [taskInfo currentDate aTask] \<rparr>
       else if level = low \<and> lowCount c < maxLowPriority s then
         c\<lparr> lowCount := lowCount c + 1,
            lowPriorityTasks := lowPriorityTasks c @ [taskInfo currentDate aTask] \<rparr>
       else c)"

text \<open>The loop over the flattened tasks. It returns the collector and the tasks it never
  reached: \<open>exit repeat\<close> leaves the remainder of the list untouched.\<close>

fun scan :: "script \<Rightarrow> int \<Rightarrow> collector \<Rightarrow> task list \<Rightarrow> collector \<times> task list" where
  "scan s currentDate c [] = (c, [])"
| "scan s currentDate c (aTask # allTasks) =
    (if allFull s c then (c, aTask # allTasks)
     else scan s currentDate (visit s currentDate c aTask) allTasks)"

record stats =
  highPriority :: int
  mediumPriority :: int
  lowPriority :: int
  totalFiltered :: int
  stats_maxResults :: int

record query_result =
  qr_perspective :: string
  qr_tasks :: "task_entry list"
  qr_projects :: "project_entry list"
  qr_stats :: stats

definition assemble :: "script \<Rightarrow> collector \<Rightarrow> task_entry list" where
  "assemble s c =
    (if lit_prioritizeUrgent s
     then highPriorityTasks c @ mediumPriorityTasks c @ lowPriorityTasks c
     else lowPriorityTasks c @ mediumPriorityTasks c @ highPriorityTasks c)"

definition queryEngine :: "script \<Rightarrow> int \<Rightarrow> task list \<Rightarrow> project list \<Rightarrow> query_result" where
  "queryEngine s currentDate allTasks allProjects =
    (let c = fst (scan s currentDate initial allTasks);
         visibleProjects = map projectInfo allProjects
     in \<lparr> qr_perspective = lit_perspectiveName s,
          qr_tasks = assemble s c,
          qr_projects = visibleProjects,
          qr_stats = \<lparr> highPriority = highCount c,
                       mediumPriority = mediumCount c,
                       lowPriority = lowCount c,
                       totalFiltered = highCount c + mediumCount c + lowCount c,
                       stats_maxResults = lit_maxResults s \<rparr> \<rparr>)"


subsection \<open>The project loop of the plain variant\<close>

text \<open>\<open>generateGetDataByPerspectiveScript\<close>, the variant without scores and quotas, tests
  every project against the hide-completed toggle before it appends it. Its entry differs
  in the task count only, which it reads outside a \<open>try\<close> block from the direct tasks.\<close>

definition plain_projectInfo :: "nat \<Rightarrow> project \<Rightarrow> project_entry" where
  "plain_projectInfo projectTaskCount aProject =
    \<lparr> pe_id = p_id aProject,
      pe_name = p_name aProject,
      pe_status = p_status aProject,
      pe_flagged = p_flagged aProject,
      pe_estimatedMinutes = or_null (p_estimated_minutes aProject),
      pe_dueDate = or_null (p_due_date aProject),
      pe_taskCount = projectTaskCount \<rparr>"

fun plain_project_loop ::
  "bool \<Rightarrow> (project \<Rightarrow> nat) \<Rightarrow> project_entry list \<Rightarrow> project list \<Rightarrow> project_entry list" where
  "plain_project_loop hide count_of_tasks visibleProjects [] = visibleProjects"
| "plain_project_loop hide count_of_tasks visibleProjects (aProject # allProjects) =
    (let projectCompleted = (p_status aProject = done_status);
         projectDropped = (p_status aProject = dropped_status);
         shouldInclude = (if hide \<and> (projectCompleted \<or> projectDropped) then False else True)
     in plain_project_loop hide count_of_tasks
          (if shouldInclude
           then visibleProjects @ [plain_projectInfo (count_of_tasks aProject) aProject]
           else visibleProjects)
          allProjects)"

subsection \<open>The TypeScript wrapper\<close>

text \<open>A parsed JSON value. A property read on it yields \<open>None\<close> for \<open>undefined\<close>; on an
  object the last of several equal keys counts, as in \<open>JSON.parse\<close>.\<close>

datatype json = JNull | JBool bool | JNum int | JStr string | JArr "json list"
  | JObj "(string \<times> json) list"

fun member :: "json \<Rightarrow> string \<Rightarrow> json option" where
  "member (JObj entries) k = map_of (rev entries) k"
| "member v k = None"

fun truthy :: "json option \<Rightarrow> bool" where
  "truthy None = False"
| "truthy (Some JNull) = False"
| "truthy (Some (JBool b)) = b"
| "truthy (Some (JNum n)) = (n \<noteq> 0)"
| "truthy (Some (JStr s)) = (s \<noteq> [])"
| "truthy (Some (JArr xs)) = True"
| "truthy (Some (JObj entries)) = True"

text \<open>\<open>String.prototype.trim\<close> removes white space and line terminators from both ends:
  U+0009 to U+000D, U+0020, U+00A0, U+1680, U+2000 to U+200A, U+2028, U+2029, U+202F,
  U+205F, U+3000 and U+FEFF, here in UTF-8.\<close>

definition white_space :: "string list" where
  "white_space =
    [[CHR 0x09], [CHR 0x0A], [CHR 0x0B], [CHR 0x0C], [CHR 0x0D], [CHR 0x20],
     [CHR 0xC2, CHR 0xA0], [CHR 0xE1, CHR 0x9A, CHR 0x80],
     [CHR 0xE2, CHR 0x80, CHR 0x80], [CHR 0xE2, CHR 0x80, CHR 0x81],
     [CHR 0xE2, CHR 0x80, CHR 0x82], [CHR 0xE2, CHR 0x80, CHR 0x83],
     [CHR 0xE2, CHR 0x80, CHR 0x84], [CHR 0xE2, CHR 0x80, CHR 0x85],
     [CHR 0xE2, CHR 0x80, CHR 0x86], [CHR 0xE2, CHR 0x80, CHR 0x87],
     [CHR 0xE2, CHR 0x80, CHR 0x88], [CHR 0xE2, CHR 0x80, CHR 0x89],
     [CHR 0xE2, CHR 0x80, CHR 0x8A], [CHR 0xE2, CHR 0x80, CHR 0xA8],
     [CHR 0xE2, CHR 0x80, CHR 0xA9], [CHR 0xE2, CHR 0x80, CHR 0xAF],
     [CHR 0xE2, CHR 0x81, CHR 0x9F], [CHR 0xE3, CHR 0x80, CHR 0x80],
     [CHR 0xEF, CHR 0xBB, CHR 0xBF]]"

text \<open>The number of bytes of the character of the table that the text starts with; 0 when
  it starts with none.\<close>

definition leading :: "string list \<Rightarrow> string \<Rightarrow> nat" where
  "leading table s =
    (case find (\<lambda>p. take (length p) s = p) table of None \<Rightarrow> 0 | Some p \<Rightarrow> length p)"

function strip :: "string list \<Rightarrow> string \<Rightarrow> string" where
  "strip table s =
    (case s of
       [] \<Rightarrow> []
     | c # cs \<Rightarrow>
        (if leading table s = 0 then s else strip table (drop (leading table s) s)))"
  by pat_completeness auto
termination
  by (relation "measure (\<lambda>(table, s). length s)") auto

definition trim :: "string \<Rightarrow> string" where
  "trim s = rev (strip (map rev white_space) (rev (strip white_space s)))"

fun split_comma :: "string \<Rightarrow> string list" where
  "split_comma [] = [[]]"
| "split_comma (c # cs) =
    (if c = CHR '','' then [] # split_comma cs
     else (case split_comma cs of [] \<Rightarrow> [[c]] | w # ws \<Rightarrow> (c # w) # ws))"

record TaskInfo =
  ti_id :: "json option"
  ti_name :: "json option"
  ti_completed :: "json option"
  ti_flagged :: "json option"
  ti_estimatedMinutes :: "json option"
  ti_dueDate :: "json option"
  ti_deferDate :: "json option"
  ti_tags :: "string list"
  ti_projectName :: "json option"
  ti_note :: "json option"
  ti_urgencyScore :: "json option"

record ProjectInfo =
  pi_id :: "json option"
  pi_name :: "json option"
  pi_status :: "json option"
  pi_flagged :: "json option"
  pi_estimatedMinutes :: "json option"
  pi_dueDate :: "json option"
  pi_taskCount :: "json option"

text \<open>What the wrapper cannot do itself: run the script (\<open>Inl\<close> the message of the
  rejection, \<open>Inr\<close> the standard output), parse JSON text (\<open>Inl\<close> the message of the syntax
  error), and the message of the \<open>TypeError\<close> that a property read on \<open>null\<close> or a call of
  something that is no function raises.\<close>

record runtime =
  execAsync :: "script \<Rightarrow> string + string"
  JSON_parse :: "string \<Rightarrow> string + json"
  TypeError_message :: string

text \<open>The callbacks of the two \<open>map\<close> calls; \<open>Inl\<close> is a thrown error's message.\<close>

definition task_of_json :: "string \<Rightarrow> json \<Rightarrow> string + TaskInfo" where
  "task_of_json type_error task =
    (if task = JNull then Inl type_error
     else
       (case (if truthy (member task ''tags'')
              then (case member task ''tags'' of
                      Some (JStr s) \<Rightarrow> Inr (filter (\<lambda>tag. trim tag \<noteq> []) (split_comma s))
                    | _ \<Rightarrow> Inl type_error)
              else Inr []) of
          Inl e \<Rightarrow> Inl e
        | Inr tags \<Rightarrow>
            Inr \<lparr> ti_id = member task ''id'',
                  ti_name = member task ''name'',
                  ti_completed = member task ''completed'',
                  ti_flagged = member task ''flagged'',
                  ti_estimatedMinutes = member task ''estimatedMinutes'',
                  ti_dueDate = member task ''dueDate'',
                  ti_deferDate = member task ''deferDate'',
                  ti_tags = tags,
                  ti_projectName = member task ''projectName'',
                  ti_note = member task ''note'',
                  ti_urgencyScore = member task ''urgencyScore'' \<rparr>))"

definition project_of_json :: "string \<Rightarrow> json \<Rightarrow> string + ProjectInfo" where
  "project_of_json type_error project =
    (if project = JNull then Inl type_error
     else Inr \<lparr> pi_id = member project ''id'',
                pi_name = member project ''name'',
                pi_status = member project ''status'',
                pi_flagged = member project ''flagged'',
                pi_estimatedMinutes = member project ''estimatedMinutes'',
                pi_dueDate = member project ''dueDate'',
                pi_taskCount = member project ''taskCount'' \<rparr>)"

fun map_throwing :: "('a \<Rightarrow> string + 'b) \<Rightarrow> 'a list \<Rightarrow> string + 'b list" where
  "map_throwing f [] = Inr []"
| "map_throwing f (x # xs) =
    (case f x of
       Inl e \<Rightarrow> Inl e
     | Inr y \<Rightarrow> (case map_throwing f xs of Inl e \<Rightarrow> Inl e | Inr ys \<Rightarrow> Inr (y # ys)))"

text \<open>\<open>v?.map(f) || []\<close>: nothing to map when \<open>v\<close> is \<open>undefined\<close> or \<open>null\<close>; an array is
  mapped; anything else has no \<open>map\<close> to call.\<close>

definition optional_map ::
  "string \<Rightarrow> (json \<Rightarrow> string + 'b) \<Rightarrow> json option \<Rightarrow> string + 'b list" where
  "optional_map type_error f v =
    (case v of
       None \<Rightarrow> Inr []
     | Some JNull \<Rightarrow> Inr []
     | Some (JArr xs) \<Rightarrow> map_throwing f xs
     | Some other \<Rightarrow> Inl type_error)"

record result =
  success :: bool
  perspective :: "json option"
  tasks :: "TaskInfo list option"
  projects :: "ProjectInfo list option"
  stats :: "json option"
  error :: "json option"

definition failure :: "json option \<Rightarrow> result" where
  "failure e = \<lparr> success = False, perspective = None, tasks = None, projects = None,
                 stats = None, error = e \<rparr>"

text \<open>The body of the \<open>try\<close> block after \<open>JSON.parse\<close>.\<close>

definition read_result :: "string \<Rightarrow> json \<Rightarrow> string + result" where
  "read_result type_error result =
    (if result = JNull then Inl type_error
     else if truthy (member result ''success'') then
       (case optional_map type_error (task_of_json type_error) (member result ''tasks'') of
          Inl e \<Rightarrow> Inl e
        | Inr tasks' \<Rightarrow>
           (case optional_map type_error (project_of_json type_error) (member result ''projects'') of
              Inl e \<Rightarrow> Inl e
            | Inr projects' \<Rightarrow>
                Inr \<lparr> success = True,
                      perspective = member result ''perspective'',
                      tasks = Some tasks',
                      projects = Some projects',
                      stats = member result ''stats'',
                      error = None \<rparr>))
     else Inr (failure (member result ''error'')))"

text \<open>\<open>getDataByPerspective\<close> returns its result and, beside it, the scripts it handed to
  the provider, in order.\<close>

definition getDataByPerspective ::
  "runtime \<Rightarrow> GetDataByPerspectiveParams \<Rightarrow> result \<times> script list" where
  "getDataByPerspective rt params =
    (let script = generateOptimizedGetDataByPerspectiveScript params
     in ((case execAsync rt script of
            Inl message \<Rightarrow> failure (Some (JStr message))
          | Inr stdout \<Rightarrow>
             (case JSON_parse rt (trim stdout) of
                Inl message \<Rightarrow> failure (Some (JStr message))
              | Inr result \<Rightarrow>
                 (case read_result (TypeError_message rt) result of
                    Inl message \<Rightarrow> failure (Some (JStr message))
                  | Inr r \<Rightarrow> r))),
         [script]))"


subsection \<open>Notions used to state the properties\<close>

text \<open>The bucket, the counter and the capacity of a priority level.\<close>

fun bucket :: "priority \<Rightarrow> collector \<Rightarrow> task_entry list" where
  "bucket high c = highPriorityTasks c"
| "bucket medium c = mediumPriorityTasks c"
| "bucket low c = lowPriorityTasks c"

fun counter :: "priority \<Rightarrow> collector \<Rightarrow> int" where
  "counter high c = highCount c"
| "counter medium c = mediumCount c"
| "counter low c = lowCount c"

fun capacity :: "priority \<Rightarrow> script \<Rightarrow> int" where
  "capacity high s = maxHighPriority s"
| "capacity medium s = maxMediumPriority s"
| "capacity low s = maxLowPriority s"

definition level_of :: "int \<Rightarrow> task \<Rightarrow> priority" where
  "level_of currentDate aTask = priorityLevel (urgencyScore currentDate aTask)"

text \<open>The entries of one level within a task list, in the order of the list.\<close>

definition tier :: "priority \<Rightarrow> task_entry list \<Rightarrow> task_entry list" where
  "tier lvl entries = filter (\<lambda>e. e_priorityLevel e = lvl) entries"

text \<open>Tag membership as the parameter \<open>withTags\<close> is described (only tasks that carry a
  requested tag). No line of either script evaluates it; it is here to state what the
  answer does not guarantee.\<close>

definition described_withTags :: "string list \<Rightarrow> task \<Rightarrow> bool" where
  "described_withTags requested aTask =
    (case t_tags aTask of
       Got taskTags \<Rightarrow> list_ex (\<lambda>tag. tag \<in> set taskTags) requested
     | MissingValue \<Rightarrow> False
     | Raised \<Rightarrow> False)"

subsection \<open>Concrete requests, documents and providers\<close>

definition request :: "string \<Rightarrow> GetDataByPerspectiveParams" where
  "request name =
    \<lparr> perspectiveName = name, hideCompleted = None, hideRecurringDuplicates = None,
      minEstimatedMinutes = None, maxEstimatedMinutes = None, flaggedOnly = None,
      withTags = None, withDueDate = None, projectName = None, maxResults = None,
      prioritizeUrgent = None \<rparr>"

text \<open>The clock of the examples reads 1000000.\<close>

definition plain_task :: task where
  "plain_task =
    \<lparr> t_id = ''t-plain'', t_name = ''Water the plants'', t_note = [],
      t_completed = False, t_dropped = False, t_flagged = False,
      t_estimated_minutes = MissingValue, t_due_date = MissingValue,
      t_defer_date = MissingValue, t_tags = Got [], t_containing_project = MissingValue \<rparr>"

definition overdue_task :: task where
  "overdue_task =
    \<lparr> t_id = ''t-overdue'', t_name = ''File the report'', t_note = [],
      t_completed = False, t_dropped = False, t_flagged = True,
      t_estimated_minutes = Got 10, t_due_date = Got 999000,
      t_defer_date = MissingValue, t_tags = Got [''office'', ''today''],
      t_containing_project = Got ''Work'' \<rparr>"

definition tomorrow_task :: task where
  "tomorrow_task =
    \<lparr> t_id = ''t-tomorrow'', t_name = ''Call the bank'', t_note = [],
      t_completed = False, t_dropped = False, t_flagged = False,
      t_estimated_minutes = MissingValue, t_due_date = Got 1100000,
      t_defer_date = MissingValue, t_tags = Got [], t_containing_project = MissingValue \<rparr>"

definition scenario_tasks :: "task list" where
  "scenario_tasks =
    [overdue_task, overdue_task, overdue_task,
     tomorrow_task, tomorrow_task, tomorrow_task, tomorrow_task, tomorrow_task,
     plain_task, plain_task, plain_task, plain_task]"

definition done_project :: project where
  "done_project =
    \<lparr> p_id = ''p-done'', p_name = ''Move house'', p_status = done_status, p_flagged = False,
      p_estimated_minutes = MissingValue, p_due_date = MissingValue,
      p_flattened_tasks = Got 0 \<rparr>"

text \<open>A provider that prints one fixed text whatever the script, with a parser that knows
  that text.\<close>

definition canned_runtime :: "string \<Rightarrow> json \<Rightarrow> runtime" where
  "canned_runtime text v =
    \<lparr> execAsync = (\<lambda>script. Inr text),
      JSON_parse = (\<lambda>t. if t = trim text then Inr v else Inl ''Unexpected token''),
      TypeError_message = ''Cannot read properties of null'' \<rparr>"

definition not_found_text :: string where
  \<open>not_found_text = ''{"success":false,"error":"Perspective not found"}''\<close>

definition not_found_json :: json where
  "not_found_json =
    JObj [(''success'', JBool False), (''error'', JStr ''Perspective not found'')]"

definition empty_answer_text :: string where
  \<open>empty_answer_text = ''{"success":true,"perspective":"Inbox","tasks":[],"projects":[],"stats":{"highPriority":0,"mediumPriority":0,"lowPriority":0,"totalFiltered":0,"maxResults":0}}''\<close>

definition empty_answer_json :: json where
  "empty_answer_json =
    JObj [(''success'', JBool True), (''perspective'', JStr ''Inbox''),
          (''tasks'', JArr []), (''projects'', JArr []),
          (''stats'', JObj [(''highPriority'', JNum 0), (''mediumPriority'', JNum 0),
                           (''lowPriority'', JNum 0), (''totalFiltered'', JNum 0),
                           (''maxResults'', JNum 0)])]"

definition work_request :: GetDataByPerspectiveParams where
  "work_request =
    (request ''Inbox'')\<lparr> projectName := Some ''Work'', flaggedOnly := Some True,
      minEstimatedMinutes := Some 5, maxEstimatedMinutes := Some 60,
      withDueDate := Some True \<rparr>"

definition budget_request :: "int \<Rightarrow> GetDataByPerspectiveParams" where
  "budget_request B = (request ''Inbox'')\<lparr> maxResults := Some B \<rparr>"

text \<open>Six tasks that fill the capacities 2, 2 and 1 of budget 5 with the fifth.\<close>

definition filling_tasks :: "task list" where
  "filling_tasks = [overdue_task, overdue_task, tomorrow_task, plain_task, tomorrow_task, plain_task]"

section \<open>The double products\<close>

lemma round_half_even_lower: "n div 2 ^ s \<le> round_half_even n s"
  by (simp add: round_half_even_def Let_def)

lemma round_half_even_upper: "2 * (round_half_even n s * 2 ^ s) \<le> 2 * n + 2 ^ s"
proof -
  define q where "q = n div 2 ^ s"
  define r where "r = n mod 2 ^ s"
  have n: "n = q * 2 ^ s + r" unfolding q_def r_def by (rule div_mult_mod_eq [symmetric])
  have r: "0 \<le> r" by (simp add: r_def)
  have "round_half_even n s = q \<or> (round_half_even n s = q + 1 \<and> 2 ^ s \<le> 2 * r)"
    by (auto simp: round_half_even_def Let_def q_def r_def)
  then show ?thesis
  proof
    assume "round_half_even n s = q"
    with n r show ?thesis by simp
  next
    assume "round_half_even n s = q + 1 \<and> 2 ^ s \<le> 2 * r"
    with n show ?thesis by (simp add: algebra_simps)
  qed
qed

lemma round_half_even_nonpos: "n \<le> 0 \<Longrightarrow> round_half_even n s \<le> 0"
proof -
  assume n: "n \<le> 0"
  have q: "n div 2 ^ s \<le> 0" using n by (simp add: div_nonpos_pos_le0)
  show ?thesis
  proof (cases "n div 2 ^ s = 0")
    case True
    then have "0 \<le> n div (2 ^ s :: int)" by simp
    then have "0 \<le> n" by (simp add: pos_imp_zdiv_nonneg_iff)
    with n have "n = 0" by simp
    then show ?thesis by (simp add: round_half_even_def)
  next
    case False
    with q have "n div 2 ^ s + 1 \<le> 0" by simp
    with q show ?thesis by (simp add: round_half_even_def Let_def)
  qed
qed

lemma to_double_nonpos: "n \<le> 0 \<Longrightarrow> to_double n \<le> 0"
  by (simp add: to_double_def round_half_even_nonpos mult_le_0_iff)

text \<open>A budget that is not positive has no positive capacity.\<close>

lemma floor_times_nonpos:
  "B \<le> 0 \<Longrightarrow> floor_times_0_4 B \<le> 0" "B \<le> 0 \<Longrightarrow> floor_times_0_2 B \<le> 0"
proof -
  assume "B \<le> 0"
  then have "B * 3602879701896397 \<le> 0" by simp
  then have t: "to_double (B * 3602879701896397) \<le> 0" by (rule to_double_nonpos)
  from t show "floor_times_0_4 B \<le> 0"
    unfolding floor_times_0_4_def by (simp add: div_nonpos_pos_le0)
  from t show "floor_times_0_2 B \<le> 0"
    unfolding floor_times_0_2_def by (simp add: div_nonpos_pos_le0)
qed

lemma le_div_power: "a * 2 ^ s \<le> n \<Longrightarrow> a \<le> n div (2 ^ s :: int)"
proof -
  assume "a * 2 ^ s \<le> n"
  then have "(a * 2 ^ s) div 2 ^ s \<le> n div (2 ^ s :: int)" by (rule zdiv_mono1) simp
  then show ?thesis by simp
qed

text \<open>Rounding a number below \<open>2 ^ 103\<close> moves it by at most \<open>2 ^ 49\<close> and never below a
  multiple of \<open>2 ^ K\<close> that is under it.\<close>

lemma to_double_div:
  assumes n0: "0 \<le> n" and nb: "n < 2 ^ 103" and K: "50 \<le> K"
    and lo: "k * 2 ^ K \<le> n" and hi: "2 * n + 2 ^ 50 < 2 * ((k + 1) * 2 ^ K)"
  shows "to_double n div 2 ^ K = k"
proof -
  have bounds: "k * 2 ^ K \<le> to_double n \<and> to_double n < (k + 1) * 2 ^ K"
  proof (cases "bitlen \<bar>n\<bar> \<le> 53")
    case True
    then have "to_double n = n" by (simp add: to_double_def)
    moreover have "(0::int) < 2 ^ 50" by simp
    ultimately show ?thesis using lo hi by linarith
  next
    case False
    define s where "s = nat (bitlen \<bar>n\<bar> - 53)"
    have t: "to_double n = round_half_even n s * 2 ^ s"
      using False by (simp add: to_double_def s_def)
    have "bitlen n \<le> 103" using nb by (simp add: bitlen_le_iff_power)
    with n0 False have s: "s \<le> 50" by (simp add: s_def)
    then have p: "(2::int) ^ s \<le> 2 ^ 50" by (rule power_increasing) simp
    have "2 * to_double n \<le> 2 * n + 2 ^ s" unfolding t by (rule round_half_even_upper)
    with p hi have up: "to_double n < (k + 1) * 2 ^ K" by linarith
    from s K have sK: "s \<le> K" by simp
    then have "(2::int) ^ K = 2 ^ (K - s) * 2 ^ s" by (simp flip: power_add)
    with lo have "(k * 2 ^ (K - s)) * 2 ^ s \<le> n" by (simp add: mult.assoc)
    then have "k * 2 ^ (K - s) \<le> n div 2 ^ s" by (rule le_div_power)
    also have "\<dots> \<le> round_half_even n s" by (rule round_half_even_lower)
    finally have "k * 2 ^ (K - s) * 2 ^ s \<le> round_half_even n s * 2 ^ s"
      by (simp add: mult_right_mono)
    also have "k * 2 ^ (K - s) * 2 ^ s = k * 2 ^ K"
      using sK by (simp add: mult.assoc flip: power_add)
    finally have "k * 2 ^ K \<le> to_double n" unfolding t .
    with up show ?thesis by simp
  qed
  define r where "r = to_double n - 2 ^ K * k"
  have "to_double n = 2 ^ K * k + r" by (simp add: r_def)
  moreover have "0 \<le> r" using bounds by (simp add: r_def mult.commute)
  moreover have "r < 2 ^ K" using bounds by (simp add: r_def algebra_simps)
  ultimately show ?thesis by (rule int_div_pos_eq)
qed

text \<open>Up to a budget of \<open>2 ^ 51\<close> the double products give the exact shares.\<close>

lemma floor_times_0_4_exact:
  assumes "0 \<le> B" and "B \<le> 2 ^ 51"
  shows "floor_times_0_4 B = (B * 2) div 5"
proof -
  define k where "k = (B * 2) div 5"
  have k: "5 * k \<le> 2 * B" "2 * B \<le> 5 * k + 4" unfolding k_def by presburger+
  have "to_double (B * 3602879701896397) div 2 ^ 53 = k"
  proof (rule to_double_div)
    show "0 \<le> B * 3602879701896397" using assms by simp
    show "B * 3602879701896397 < 2 ^ 103" using assms by simp
    show "(50::nat) \<le> 53" by simp
    show "k * 2 ^ 53 \<le> B * 3602879701896397" using k assms by simp
    show "2 * (B * 3602879701896397) + 2 ^ 50 < 2 * ((k + 1) * 2 ^ 53)" using k assms by simp
  qed
  then show ?thesis by (simp add: floor_times_0_4_def k_def)
qed

lemma floor_times_0_2_exact:
  assumes "0 \<le> B" and "B \<le> 2 ^ 51"
  shows "floor_times_0_2 B = B div 5"
proof -
  define k where "k = B div 5"
  have k: "5 * k \<le> B" "B \<le> 5 * k + 4" unfolding k_def by presburger+
  have "to_double (B * 3602879701896397) div 2 ^ 54 = k"
  proof (rule to_double_div)
    show "0 \<le> B * 3602879701896397" using assms by simp
    show "B * 3602879701896397 < 2 ^ 103" using assms by simp
    show "(50::nat) \<le> 54" by simp
    show "k * 2 ^ 54 \<le> B * 3602879701896397" using k assms by simp
    show "2 * (B * 3602879701896397) + 2 ^ 50 < 2 * ((k + 1) * 2 ^ 54)" using k assms by simp
  qed
  then show ?thesis by (simp add: floor_times_0_2_def k_def)
qed

lemma floor_times_small:
  "B \<le> 2 \<Longrightarrow> floor_times_0_4 B \<le> 0"
  "B < 5 \<Longrightarrow> floor_times_0_2 B \<le> 0"
  "0 \<le> B \<Longrightarrow> B \<le> 2 \<Longrightarrow> floor_times_0_4 B = 0"
  "0 \<le> B \<Longrightarrow> B < 5 \<Longrightarrow> floor_times_0_2 B = 0"
proof -
  have e4: "floor_times_0_4 B = (B * 2) div 5" if "0 \<le> B" "B \<le> 2"
    using that by (intro floor_times_0_4_exact) simp_all
  have e2: "floor_times_0_2 B = B div 5" if "0 \<le> B" "B < 5"
    using that by (intro floor_times_0_2_exact) simp_all
  show z4: "floor_times_0_4 B = 0" if "0 \<le> B" "B \<le> 2"
    using e4 [OF that] that by simp
  show z2: "floor_times_0_2 B = 0" if "0 \<le> B" "B < 5"
    using e2 [OF that] that by simp
  show "floor_times_0_4 B \<le> 0" if "B \<le> 2"
    using that z4 floor_times_nonpos(1) [of B] by (cases "0 \<le> B") simp_all
  show "floor_times_0_2 B \<le> 0" if "B < 5"
    using that z2 floor_times_nonpos(2) [of B] by (cases "0 \<le> B") simp_all
qed

text \<open>At 6755556867305064, an integer below \<open>2 ^ 53\<close>, the double products give one more
  than the exact shares 2702222746922025 and 1351111373461012.\<close>

lemma floor_times_huge:
  "floor_times_0_4 6755556867305064 = 2702222746922026"
  "floor_times_0_2 6755556867305064 = 1351111373461013"
  by code_simp+


section \<open>Evaluation of the examples\<close>

lemmas script_defs = generateOptimizedGetDataByPerspectiveScript_def Let_def default_to_def
  floor_times_0_4_exact floor_times_0_2_exact
  truthy_number_def request_def

lemmas filter_defs = shouldInclude_def projectNameFilter_def flaggedOnlyFilter_def
  minEstimatedMinutesFilter_def maxEstimatedMinutesFilter_def withDueDateFilter_def
  hideCompletedFilter_def

lemmas score_defs = urgencyScore_def flaggedScore_def dueDateScore_def estimatedMinutesScore_def
  daysDiff_def priorityLevel_def

lemmas scan_defs = queryEngine_def assemble_def visit_def allFull_def initial_def

lemmas request_defs = work_request_def budget_request_def

lemma plain_task_fields:
  "t_completed plain_task = False" "t_dropped plain_task = False" "t_flagged plain_task = False"
  "t_estimated_minutes plain_task = MissingValue" "t_due_date plain_task = MissingValue"
  "t_tags plain_task = Got []" "t_containing_project plain_task = MissingValue"
  by (simp_all add: plain_task_def)

lemma overdue_task_fields:
  "t_completed overdue_task = False" "t_dropped overdue_task = False" "t_flagged overdue_task = True"
  "t_estimated_minutes overdue_task = Got 10" "t_due_date overdue_task = Got 999000"
  "t_tags overdue_task = Got [''office'', ''today'']" "t_containing_project overdue_task = Got ''Work''"
  by (simp_all add: overdue_task_def)

lemma tomorrow_task_fields:
  "t_completed tomorrow_task = False" "t_dropped tomorrow_task = False" "t_flagged tomorrow_task = False"
  "t_estimated_minutes tomorrow_task = MissingValue" "t_due_date tomorrow_task = Got 1100000"
  "t_tags tomorrow_task = Got []" "t_containing_project tomorrow_task = MissingValue"
  by (simp_all add: tomorrow_task_def)

lemmas task_fields = plain_task_fields overdue_task_fields tomorrow_task_fields

lemma example_scores:
  "urgencyScore 1000000 overdue_task = 330"
  "urgencyScore 1000000 tomorrow_task = 100"
  "urgencyScore 1000000 plain_task = 0"
  by (simp_all add: score_defs task_fields)

lemma example_levels:
  "priorityLevel (urgencyScore 1000000 overdue_task) = high"
  "priorityLevel (urgencyScore 1000000 tomorrow_task) = medium"
  "priorityLevel (urgencyScore 1000000 plain_task) = low"
  by (simp_all add: score_defs task_fields)


text \<open>The scenario of the specification: budget 10, three flagged overdue tasks, five tasks
  due tomorrow, four tasks with nothing set. Three, four and two are accepted.\<close>

lemma scenario_answer:
  "qr_stats (queryEngine
      (generateOptimizedGetDataByPerspectiveScript ((request ''Inbox'')\<lparr>maxResults := Some 10\<rparr>))
      1000000 scenario_tasks [])
   = \<lparr> highPriority = 3, mediumPriority = 4, lowPriority = 2, totalFiltered = 9,
       stats_maxResults = 10 \<rparr>"
  by (simp add: script_defs filter_defs scan_defs example_levels scenario_tasks_def task_fields)


section \<open>The generated script\<close>

lemma generated_capacities:
  "maxHighPriority (generateOptimizedGetDataByPerspectiveScript params)
      = floor_times_0_4 (default_to 500 (maxResults params))"
  "maxMediumPriority (generateOptimizedGetDataByPerspectiveScript params)
      = floor_times_0_4 (default_to 500 (maxResults params))"
  "maxLowPriority (generateOptimizedGetDataByPerspectiveScript params)
      = floor_times_0_2 (default_to 500 (maxResults params))"
  "lit_maxResults (generateOptimizedGetDataByPerspectiveScript params)
      = default_to 500 (maxResults params)"
  by (simp_all add: generateOptimizedGetDataByPerspectiveScript_def Let_def)

lemma generated_filters:
  "lit_projectName (generateOptimizedGetDataByPerspectiveScript params) = default_to [] (projectName params)"
  "lit_flaggedOnly (generateOptimizedGetDataByPerspectiveScript params) = default_to False (flaggedOnly params)"
  "blk_minEstimatedMinutes (generateOptimizedGetDataByPerspectiveScript params) = truthy_number (minEstimatedMinutes params)"
  "blk_maxEstimatedMinutes (generateOptimizedGetDataByPerspectiveScript params) = truthy_number (maxEstimatedMinutes params)"
  "blk_withDueDate (generateOptimizedGetDataByPerspectiveScript params) = withDueDate params"
  "lit_hideCompleted (generateOptimizedGetDataByPerspectiveScript params) = default_to True (hideCompleted params)"
  by (simp_all add: generateOptimizedGetDataByPerspectiveScript_def Let_def)

lemma floor_shares:
  "\<lfloor>of_int B * (4 / 10 :: rat)\<rfloor> = (B * 2) div 5"
  "\<lfloor>of_int B * (2 / 10 :: rat)\<rfloor> = B div 5"
proof -
  have "of_int B * (4 / 10 :: rat) = of_int (B * 2) / of_int 5" by simp
  then show "\<lfloor>of_int B * (4 / 10 :: rat)\<rfloor> = (B * 2) div 5"
    by (simp only: floor_divide_of_int_eq)
  have "of_int B * (2 / 10 :: rat) = of_int B / of_int 5" by simp
  then show "\<lfloor>of_int B * (2 / 10 :: rat)\<rfloor> = B div 5"
    by (simp only: floor_divide_of_int_eq)
qed

lemma capacities_sum: "0 \<le> B \<Longrightarrow> (B * 2) div 5 + (B * 2) div 5 + B div 5 \<le> (B::int)"
  by presburger


section \<open>One iteration and the whole loop\<close>

lemma visit_cases:
  "(bucket lvl (visit s now c t) = bucket lvl c \<and> counter lvl (visit s now c t) = counter lvl c)
   \<or> (bucket lvl (visit s now c t) = bucket lvl c @ [taskInfo now t]
      \<and> counter lvl (visit s now c t) = counter lvl c + 1
      \<and> counter lvl c < capacity lvl s
      \<and> shouldInclude s t \<and> level_of now t = lvl)"
  by (cases lvl) (simp_all add: visit_def Let_def level_of_def)

lemma scan_full: "allFull s c \<Longrightarrow> scan s now c ts = (c, ts)"
  by (cases ts) simp_all

lemma scan_prefix:
  "\<exists>pre. ts = pre @ snd (scan s now c ts) \<and> fst (scan s now c ts) = foldl (visit s now) c pre"
proof (induction ts arbitrary: c)
  case Nil
  show ?case by simp
next
  case (Cons t ts)
  show ?case
  proof (cases "allFull s c")
    case True
    then show ?thesis by simp
  next
    case False
    from Cons.IH [of "visit s now c t"] obtain pre where
      "ts = pre @ snd (scan s now (visit s now c t) ts)"
      "fst (scan s now (visit s now c t) ts) = foldl (visit s now) (visit s now c t) pre"
      by blast
    with False have "t # ts = (t # pre) @ snd (scan s now c (t # ts))
        \<and> fst (scan s now c (t # ts)) = foldl (visit s now) c (t # pre)"
      by simp
    then show ?thesis by blast
  qed
qed

lemma scan_stops_full: "snd (scan s now c ts) \<noteq> [] \<Longrightarrow> allFull s (fst (scan s now c ts))"
  by (induction ts arbitrary: c) (auto split: if_splits)

lemma scan_append_full:
  "allFull s (fst (scan s now c ts)) \<Longrightarrow>
     scan s now c (ts @ later) = (fst (scan s now c ts), snd (scan s now c ts) @ later)"
proof (induction ts arbitrary: c)
  case Nil
  then show ?case by (simp add: scan_full)
next
  case (Cons t ts)
  then show ?case by (cases "allFull s c") simp_all
qed

lemma foldl_visit_bucket:
  "\<exists>xs. subseq xs pre
      \<and> bucket lvl (foldl (visit s now) c pre) = bucket lvl c @ map (taskInfo now) xs
      \<and> counter lvl (foldl (visit s now) c pre) = counter lvl c + int (length xs)
      \<and> (\<forall>t\<in>set xs. shouldInclude s t \<and> level_of now t = lvl)
      \<and> counter lvl (foldl (visit s now) c pre) \<le> max (counter lvl c) (capacity lvl s)"
proof (induction pre arbitrary: c)
  case Nil
  show ?case by (rule exI [of _ "[]"]) simp
next
  case (Cons t pre)
  let ?c = "visit s now c t"
  from Cons.IH [of ?c] obtain xs where xs:
    "subseq xs pre"
    "bucket lvl (foldl (visit s now) ?c pre) = bucket lvl ?c @ map (taskInfo now) xs"
    "counter lvl (foldl (visit s now) ?c pre) = counter lvl ?c + int (length xs)"
    "\<forall>t\<in>set xs. shouldInclude s t \<and> level_of now t = lvl"
    "counter lvl (foldl (visit s now) ?c pre) \<le> max (counter lvl ?c) (capacity lvl s)"
    by blast
  from visit_cases [of lvl s now c t] show ?case
  proof
    assume same: "bucket lvl ?c = bucket lvl c \<and> counter lvl ?c = counter lvl c"
    have "subseq xs (t # pre)" using xs(1) by (rule list_emb_Cons)
    with xs same show ?thesis by (intro exI [of _ xs]) simp
  next
    assume add: "bucket lvl ?c = bucket lvl c @ [taskInfo now t]
      \<and> counter lvl ?c = counter lvl c + 1 \<and> counter lvl c < capacity lvl s
      \<and> shouldInclude s t \<and> level_of now t = lvl"
    have "subseq (t # xs) (t # pre)" using xs(1) by (rule subseq_Cons2)
    with xs add show ?thesis by (intro exI [of _ "t # xs"]) auto
  qed
qed

lemma subseq_member: "subseq xs ys \<Longrightarrow> x \<in> set xs \<Longrightarrow> x \<in> set ys"
  by (induction rule: list_emb.induct) auto

lemma scan_bucket:
  "\<exists>xs. subseq xs ts
      \<and> bucket lvl (fst (scan s now c ts)) = bucket lvl c @ map (taskInfo now) xs
      \<and> counter lvl (fst (scan s now c ts)) = counter lvl c + int (length xs)
      \<and> (\<forall>t\<in>set xs. shouldInclude s t \<and> level_of now t = lvl)
      \<and> counter lvl (fst (scan s now c ts)) \<le> max (counter lvl c) (capacity lvl s)"
proof -
  obtain pre where pre: "ts = pre @ snd (scan s now c ts)"
    "fst (scan s now c ts) = foldl (visit s now) c pre"
    using scan_prefix by blast
  from foldl_visit_bucket [of pre lvl s now c] obtain xs where xs:
    "subseq xs pre"
    "bucket lvl (foldl (visit s now) c pre) = bucket lvl c @ map (taskInfo now) xs"
    "counter lvl (foldl (visit s now) c pre) = counter lvl c + int (length xs)"
    "\<forall>t\<in>set xs. shouldInclude s t \<and> level_of now t = lvl"
    "counter lvl (foldl (visit s now) c pre) \<le> max (counter lvl c) (capacity lvl s)"
    by blast
  have "subseq pre ts" using pre(1) by (metis list_emb_append2 subseq_order.order_refl append_Nil2 list_emb_append_mono list_emb_Nil)
  with xs(1) have "subseq xs ts" by (rule subseq_order.order_trans)
  with xs pre(2) show ?thesis by (intro exI [of _ xs]) simp
qed

lemma scan_initial_bucket:
  "\<exists>xs. subseq xs ts
      \<and> bucket lvl (fst (scan s now initial ts)) = map (taskInfo now) xs
      \<and> counter lvl (fst (scan s now initial ts)) = int (length xs)
      \<and> (\<forall>t\<in>set xs. shouldInclude s t \<and> level_of now t = lvl)
      \<and> counter lvl (fst (scan s now initial ts)) \<le> max 0 (capacity lvl s)"
proof -
  have i: "bucket lvl initial = []" "counter lvl initial = 0"
    by (cases lvl; simp add: initial_def)+
  from scan_bucket [of ts lvl s now initial] show ?thesis unfolding i by simp
qed

lemma entry_level: "e_priorityLevel (taskInfo now t) = level_of now t"
  by (simp add: taskInfo_def level_of_def)

lemma bucket_levels:
  "e \<in> set (bucket lvl (fst (scan s now initial ts))) \<Longrightarrow> e_priorityLevel e = lvl"
  using scan_initial_bucket [of ts lvl s now] by (auto simp: entry_level)

lemma counter_is_length:
  "counter lvl (fst (scan s now initial ts)) = int (length (bucket lvl (fst (scan s now initial ts))))"
  using scan_initial_bucket [of ts lvl s now] by auto

lemma counter_le_capacity:
  "0 \<le> capacity lvl s \<Longrightarrow> counter lvl (fst (scan s now initial ts)) \<le> capacity lvl s"
  using scan_initial_bucket [of ts lvl s now] by auto


section \<open>The assembled answer\<close>

lemma filter_own: "(\<And>e. e \<in> set xs \<Longrightarrow> f e = (l::priority)) \<Longrightarrow> filter (\<lambda>e. f e = l) xs = xs"
  by (induction xs) auto

lemma filter_other:
  "(\<And>e. e \<in> set xs \<Longrightarrow> f e = (k::priority)) \<Longrightarrow> k \<noteq> l \<Longrightarrow> filter (\<lambda>e. f e = l) xs = []"
  by (induction xs) auto

lemma tier_filter:
  "filter (\<lambda>e. e_priorityLevel e = lvl) (assemble s (fst (scan s now initial ts)))
     = bucket lvl (fst (scan s now initial ts))"
proof -
  let ?c = "fst (scan s now initial ts)"
  have h: "\<And>e. e \<in> set (highPriorityTasks ?c) \<Longrightarrow> e_priorityLevel e = high"
    using bucket_levels [of _ high s now ts] by simp
  have m: "\<And>e. e \<in> set (mediumPriorityTasks ?c) \<Longrightarrow> e_priorityLevel e = medium"
    using bucket_levels [of _ medium s now ts] by simp
  have l: "\<And>e. e \<in> set (lowPriorityTasks ?c) \<Longrightarrow> e_priorityLevel e = low"
    using bucket_levels [of _ low s now ts] by simp
  show ?thesis
    by (cases lvl)
       (simp_all add: assemble_def filter_own [OF h] filter_own [OF m] filter_own [OF l]
          filter_other [OF h] filter_other [OF m] filter_other [OF l])
qed

lemma length_assemble:
  "int (length (assemble s c)) =
     int (length (highPriorityTasks c)) + int (length (mediumPriorityTasks c))
       + int (length (lowPriorityTasks c))"
  by (simp add: assemble_def)

lemma assemble_set:
  "set (assemble s c) = set (highPriorityTasks c) \<union> set (mediumPriorityTasks c) \<union> set (lowPriorityTasks c)"
  by (cases "lit_prioritizeUrgent s") (auto simp: assemble_def)

lemma shouldInclude_iff:
  "shouldInclude s t \<longleftrightarrow>
     projectNameFilter s t \<and> flaggedOnlyFilter s t \<and> minEstimatedMinutesFilter s t
     \<and> maxEstimatedMinutesFilter s t \<and> withDueDateFilter s t \<and> hideCompletedFilter s t"
  by (simp add: shouldInclude_def)

lemma returned_entry_source:
  assumes "e \<in> set (qr_tasks (queryEngine s now ts ps))"
  shows "\<exists>t\<in>set ts. e = taskInfo now t \<and> shouldInclude s t"
proof -
  let ?c = "fst (scan s now initial ts)"
  have "qr_tasks (queryEngine s now ts ps) = assemble s ?c" by (simp add: queryEngine_def Let_def)
  with assms have "e \<in> set (assemble s ?c)" by simp
  then have "e \<in> set (bucket high ?c) \<or> e \<in> set (bucket medium ?c) \<or> e \<in> set (bucket low ?c)"
    unfolding assemble_set by simp
  then obtain lvl where e: "e \<in> set (bucket lvl ?c)" by blast
  from scan_initial_bucket [of ts lvl s now] obtain xs where xs:
    "subseq xs ts" "bucket lvl ?c = map (taskInfo now) xs"
    "\<forall>t\<in>set xs. shouldInclude s t \<and> level_of now t = lvl"
    by blast
  from e xs(2) have "e \<in> taskInfo now ` set xs" by simp
  then obtain t where t: "t \<in> set xs" "e = taskInfo now t" by blast
  from xs(3) t(1) have inc: "shouldInclude s t" by blast
  from xs(1) t(1) have "t \<in> set ts" by (rule subseq_member)
  with t(2) inc show ?thesis by blast
qed

lemma engine_projects: "qr_projects (queryEngine s now ts ps) = map projectInfo ps"
  by (simp add: queryEngine_def Let_def)

lemma plain_project_loop_filter:
  "plain_project_loop hide n acc ps =
     acc @ map (\<lambda>p. plain_projectInfo (n p) p)
            (filter (\<lambda>p. \<not> (hide \<and> (p_status p = done_status \<or> p_status p = dropped_status))) ps)"
  by (induction ps arbitrary: acc) (simp_all add: Let_def)

lemma daysDiff_less:
  "daysDiff d now < 0 \<longleftrightarrow> d < now"
  "daysDiff d now < 1 \<longleftrightarrow> d < now + 86400"
  "daysDiff d now < 2 \<longleftrightarrow> d < now + 172800"
  "daysDiff d now < 8 \<longleftrightarrow> d < now + 691200"
proof -
  have k: "daysDiff d now < of_int n \<longleftrightarrow> d - now < n * 86400" for n
  proof -
    have "daysDiff d now < of_int n \<longleftrightarrow> (of_int (d - now) :: rat) < of_int n * 86400"
      unfolding daysDiff_def by (simp add: pos_divide_less_eq)
    also have "\<dots> \<longleftrightarrow> (of_int (d - now) :: rat) < of_int (n * 86400)" by simp
    also have "\<dots> \<longleftrightarrow> d - now < n * 86400" by (simp only: of_int_less_iff)
    finally show ?thesis .
  qed
  show "daysDiff d now < 0 \<longleftrightarrow> d < now" using k [of 0] by simp
  show "daysDiff d now < 1 \<longleftrightarrow> d < now + 86400" using k [of 1] by auto
  show "daysDiff d now < 2 \<longleftrightarrow> d < now + 172800" using k [of 2] by auto
  show "daysDiff d now < 8 \<longleftrightarrow> d < now + 691200" using k [of 8] by auto
qed


section \<open>The properties\<close>

subsection \<open>Filters\<close>

text \<open>C1. Every task entry of the answer is the entry of a task of the stream,
  and that task satisfies every filter the script contains: its project has the requested
  name when a name that is not empty is requested; it is flagged when only flagged tasks
  are requested; its estimated duration is there and at least the minimum when a minimum
  other than zero is requested; its estimated duration, when there is one, is at most the
  maximum when a maximum other than zero is requested; it has a due date, or has none, as
  requested; it is neither completed nor dropped unless hiding completed tasks is switched
  off. Tag membership is not among the filters.\<close>

theorem returned_tasks_satisfy_filters:
  assumes "e \<in> set (qr_tasks (queryEngine (generateOptimizedGetDataByPerspectiveScript params) now ts ps))"
  shows "\<exists>t\<in>set ts. e = taskInfo now t
      \<and> (\<forall>n. projectName params = Some n \<and> n \<noteq> [] \<longrightarrow> t_containing_project t = Got n)
      \<and> (flaggedOnly params = Some True \<longrightarrow> t_flagged t)
      \<and> (\<forall>m. minEstimatedMinutes params = Some m \<and> m \<noteq> 0 \<longrightarrow>
            (\<exists>d. t_estimated_minutes t = Got d \<and> m \<le> d))
      \<and> (\<forall>m. maxEstimatedMinutes params = Some m \<and> m \<noteq> 0 \<longrightarrow>
            (\<forall>d. t_estimated_minutes t = Got d \<longrightarrow> d \<le> m))
      \<and> (withDueDate params = Some True \<longrightarrow> (\<exists>d. t_due_date t = Got d))
      \<and> (withDueDate params = Some False \<longrightarrow> (\<forall>d. t_due_date t \<noteq> Got d))
      \<and> (hideCompleted params \<noteq> Some False \<longrightarrow> \<not> t_completed t \<and> \<not> t_dropped t)"
proof -
  let ?s = "generateOptimizedGetDataByPerspectiveScript params"
  from returned_entry_source [OF assms] obtain t where
    t: "t \<in> set ts" "e = taskInfo now t" "shouldInclude ?s t" by blast
  from t(3) have f: "projectNameFilter ?s t" "flaggedOnlyFilter ?s t" "minEstimatedMinutesFilter ?s t"
    "maxEstimatedMinutesFilter ?s t" "withDueDateFilter ?s t" "hideCompletedFilter ?s t"
    by (simp_all add: shouldInclude_iff)
  have 1: "\<forall>n. projectName params = Some n \<and> n \<noteq> [] \<longrightarrow> t_containing_project t = Got n"
    using f(1) by (cases "t_containing_project t")
      (auto simp: projectNameFilter_def generated_filters default_to_def split: if_splits)
  have 2: "flaggedOnly params = Some True \<longrightarrow> t_flagged t"
    using f(2) by (auto simp: flaggedOnlyFilter_def generated_filters default_to_def)
  have 3: "\<forall>m. minEstimatedMinutes params = Some m \<and> m \<noteq> 0 \<longrightarrow> (\<exists>d. t_estimated_minutes t = Got d \<and> m \<le> d)"
    using f(3) by (cases "t_estimated_minutes t")
      (auto simp: minEstimatedMinutesFilter_def generated_filters truthy_number_def split: if_splits)
  have 4: "\<forall>m. maxEstimatedMinutes params = Some m \<and> m \<noteq> 0 \<longrightarrow> (\<forall>d. t_estimated_minutes t = Got d \<longrightarrow> d \<le> m)"
    using f(4) by (cases "t_estimated_minutes t")
      (auto simp: maxEstimatedMinutesFilter_def generated_filters truthy_number_def split: if_splits)
  have 5: "withDueDate params = Some True \<longrightarrow> (\<exists>d. t_due_date t = Got d)"
    using f(5) by (cases "t_due_date t") (auto simp: withDueDateFilter_def generated_filters)
  have 6: "withDueDate params = Some False \<longrightarrow> (\<forall>d. t_due_date t \<noteq> Got d)"
    using f(5) by (cases "t_due_date t") (auto simp: withDueDateFilter_def generated_filters)
  have 7: "hideCompleted params \<noteq> Some False \<longrightarrow> \<not> t_completed t \<and> \<not> t_dropped t"
    using f(6) by (cases "hideCompleted params") (auto simp: hideCompletedFilter_def generated_filters default_to_def)
  show ?thesis
  proof (rule bexI [of _ t])
    show "e = taskInfo now t
      \<and> (\<forall>n. projectName params = Some n \<and> n \<noteq> [] \<longrightarrow> t_containing_project t = Got n)
      \<and> (flaggedOnly params = Some True \<longrightarrow> t_flagged t)
      \<and> (\<forall>m. minEstimatedMinutes params = Some m \<and> m \<noteq> 0 \<longrightarrow>
            (\<exists>d. t_estimated_minutes t = Got d \<and> m \<le> d))
      \<and> (\<forall>m. maxEstimatedMinutes params = Some m \<and> m \<noteq> 0 \<longrightarrow>
            (\<forall>d. t_estimated_minutes t = Got d \<longrightarrow> d \<le> m))
      \<and> (withDueDate params = Some True \<longrightarrow> (\<exists>d. t_due_date t = Got d))
      \<and> (withDueDate params = Some False \<longrightarrow> (\<forall>d. t_due_date t \<noteq> Got d))
      \<and> (hideCompleted params \<noteq> Some False \<longrightarrow> \<not> t_completed t \<and> \<not> t_dropped t)"
      using t(2) 1 2 3 4 5 6 7 by (intro conjI)
  qed (rule t(1))
qed


text \<open>The request of the witness asks for project Work, flagged tasks, 5 to 60 minutes and
  a due date; of the two tasks offered, the overdue one is returned.\<close>

theorem returned_tasks_satisfy_filters_witness:
  "taskInfo 1000000 overdue_task
     \<in> set (qr_tasks (queryEngine (generateOptimizedGetDataByPerspectiveScript work_request)
                1000000 [plain_task, overdue_task] []))
   \<and> (\<exists>t\<in>set [plain_task, overdue_task].
         taskInfo 1000000 overdue_task = taskInfo 1000000 t
         \<and> t_containing_project t = Got ''Work'' \<and> t_flagged t
         \<and> (\<exists>d. t_estimated_minutes t = Got d \<and> 5 \<le> d \<and> d \<le> 60)
         \<and> (\<exists>d. t_due_date t = Got d)
         \<and> \<not> t_completed t \<and> \<not> t_dropped t)"
proof -
  have m: "taskInfo 1000000 overdue_task
     \<in> set (qr_tasks (queryEngine (generateOptimizedGetDataByPerspectiveScript work_request)
                1000000 [plain_task, overdue_task] []))"
    by (simp add: request_defs script_defs filter_defs scan_defs example_levels task_fields)
  have w: "projectName work_request = Some ''Work''" "flaggedOnly work_request = Some True"
    "minEstimatedMinutes work_request = Some 5" "maxEstimatedMinutes work_request = Some 60"
    "withDueDate work_request = Some True" "hideCompleted work_request = None"
    by (simp_all add: request_defs request_def)
  from returned_tasks_satisfy_filters [OF m] obtain t where t:
    "t \<in> set [plain_task, overdue_task]" "taskInfo 1000000 overdue_task = taskInfo 1000000 t"
    "\<forall>n. projectName work_request = Some n \<and> n \<noteq> [] \<longrightarrow> t_containing_project t = Got n"
    "flaggedOnly work_request = Some True \<longrightarrow> t_flagged t"
    "\<forall>m. minEstimatedMinutes work_request = Some m \<and> m \<noteq> 0 \<longrightarrow>
            (\<exists>d. t_estimated_minutes t = Got d \<and> m \<le> d)"
    "\<forall>m. maxEstimatedMinutes work_request = Some m \<and> m \<noteq> 0 \<longrightarrow>
            (\<forall>d. t_estimated_minutes t = Got d \<longrightarrow> d \<le> m)"
    "withDueDate work_request = Some True \<longrightarrow> (\<exists>d. t_due_date t = Got d)"
    "hideCompleted work_request \<noteq> Some False \<longrightarrow> \<not> t_completed t \<and> \<not> t_dropped t"
    by blast
  from t(3) w(1) have 1: "t_containing_project t = Got ''Work''" by simp
  from t(4) w(2) have 2: "t_flagged t" by simp
  from t(5) w(3) obtain d where d: "t_estimated_minutes t = Got d" "5 \<le> d" by auto
  from t(6) w(4) d(1) have "d \<le> 60" by simp
  with d have 3: "\<exists>d. t_estimated_minutes t = Got d \<and> 5 \<le> d \<and> d \<le> 60" by blast
  from t(7) w(5) have 4: "\<exists>d. t_due_date t = Got d" by simp
  from t(8) w(6) have 5: "\<not> t_completed t \<and> \<not> t_dropped t" by simp
  from t(1,2) 1 2 3 4 5 have "\<exists>t\<in>set [plain_task, overdue_task].
         taskInfo 1000000 overdue_task = taskInfo 1000000 t
         \<and> t_containing_project t = Got ''Work'' \<and> t_flagged t
         \<and> (\<exists>d. t_estimated_minutes t = Got d \<and> 5 \<le> d \<and> d \<le> 60)
         \<and> (\<exists>d. t_due_date t = Got d)
         \<and> \<not> t_completed t \<and> \<not> t_dropped t"
    by (intro bexI [of _ t] conjI) simp_all
  with m show ?thesis by (rule conjI)
qed


text \<open>C1 with tag membership among the predicates does not hold: a task without tags is
  returned to a request for the tag \<open>office\<close>.\<close>

theorem tag_filter_counterexample:
  "taskInfo 1000000 plain_task
     \<in> set (qr_tasks (queryEngine
          (generateOptimizedGetDataByPerspectiveScript ((request ''Inbox'')\<lparr>withTags := Some [''office'']\<rparr>))
          1000000 [plain_task] []))
   \<and> \<not> described_withTags [''office''] plain_task"
  by (simp add: script_defs filter_defs scan_defs example_levels described_withTags_def task_fields)


text \<open>C4. A task whose estimated duration is missing or cannot be read is
  rejected by the minimum-duration filter when a minimum other than zero is requested; a
  task without a readable due date is rejected when a due date is required; a task without
  a readable containing project is rejected when a project name is requested. A rejected
  task leaves the collector as it was. The maximum-duration filter lets a task without a
  readable duration pass.\<close>

theorem missing_value_rejected:
  assumes s: "s = generateOptimizedGetDataByPerspectiveScript params"
  shows "(\<forall>m. minEstimatedMinutes params = Some m \<and> m \<noteq> 0
              \<and> t_estimated_minutes t \<in> {MissingValue, Raised}
            \<longrightarrow> \<not> minEstimatedMinutesFilter s t \<and> \<not> shouldInclude s t \<and> visit s now c t = c)
       \<and> (withDueDate params = Some True \<and> t_due_date t \<in> {MissingValue, Raised}
            \<longrightarrow> \<not> withDueDateFilter s t \<and> \<not> shouldInclude s t \<and> visit s now c t = c)
       \<and> (\<forall>n. projectName params = Some n \<and> n \<noteq> []
              \<and> t_containing_project t \<in> {MissingValue, Raised}
            \<longrightarrow> \<not> projectNameFilter s t \<and> \<not> shouldInclude s t \<and> visit s now c t = c)
       \<and> (t_estimated_minutes t \<in> {MissingValue, Raised} \<longrightarrow> maxEstimatedMinutesFilter s t)"
proof (intro conjI allI impI)
  fix m
  assume a: "minEstimatedMinutes params = Some m \<and> m \<noteq> 0 \<and> t_estimated_minutes t \<in> {MissingValue, Raised}"
  then show 1: "\<not> minEstimatedMinutesFilter s t"
    unfolding s by (auto simp: minEstimatedMinutesFilter_def generated_filters truthy_number_def)
  then show 2: "\<not> shouldInclude s t" by (simp add: shouldInclude_iff)
  then show "visit s now c t = c" by (simp add: visit_def)
next
  assume a: "withDueDate params = Some True \<and> t_due_date t \<in> {MissingValue, Raised}"
  then show 1: "\<not> withDueDateFilter s t"
    unfolding s by (auto simp: withDueDateFilter_def generated_filters)
  then show 2: "\<not> shouldInclude s t" by (simp add: shouldInclude_iff)
  then show "visit s now c t = c" by (simp add: visit_def)
next
  fix n
  assume a: "projectName params = Some n \<and> n \<noteq> [] \<and> t_containing_project t \<in> {MissingValue, Raised}"
  then show 1: "\<not> projectNameFilter s t"
    unfolding s by (auto simp: projectNameFilter_def generated_filters default_to_def)
  then show 2: "\<not> shouldInclude s t" by (simp add: shouldInclude_iff)
  then show "visit s now c t = c" by (simp add: visit_def)
next
  assume "t_estimated_minutes t \<in> {MissingValue, Raised}"
  then show "maxEstimatedMinutesFilter s t"
    by (auto simp: maxEstimatedMinutesFilter_def split: option.splits)
qed


text \<open>The scenario of the specification: a minimum of 30 minutes and a task without
  estimated duration.\<close>

theorem missing_value_rejected_witness:
  "minEstimatedMinutes ((request ''Inbox'')\<lparr>minEstimatedMinutes := Some 30\<rparr>) = Some 30
   \<and> t_estimated_minutes plain_task = MissingValue
   \<and> \<not> minEstimatedMinutesFilter
        (generateOptimizedGetDataByPerspectiveScript ((request ''Inbox'')\<lparr>minEstimatedMinutes := Some 30\<rparr>))
        plain_task
   \<and> \<not> shouldInclude
        (generateOptimizedGetDataByPerspectiveScript ((request ''Inbox'')\<lparr>minEstimatedMinutes := Some 30\<rparr>))
        plain_task
   \<and> visit
        (generateOptimizedGetDataByPerspectiveScript ((request ''Inbox'')\<lparr>minEstimatedMinutes := Some 30\<rparr>))
        1000000 initial plain_task = initial"
proof -
  let ?p = "(request ''Inbox'')\<lparr>minEstimatedMinutes := Some 30\<rparr>"
  have a: "minEstimatedMinutes ?p = Some 30 \<and> (30::int) \<noteq> 0
      \<and> t_estimated_minutes plain_task \<in> {MissingValue, Raised}"
    by (simp add: request_def task_fields)
  from missing_value_rejected [OF refl, of ?p plain_task 1000000 initial] a
  have "\<not> minEstimatedMinutesFilter (generateOptimizedGetDataByPerspectiveScript ?p) plain_task
      \<and> \<not> shouldInclude (generateOptimizedGetDataByPerspectiveScript ?p) plain_task
      \<and> visit (generateOptimizedGetDataByPerspectiveScript ?p) 1000000 initial plain_task = initial"
    by blast
  with a show ?thesis by (simp add: task_fields)
qed


text \<open>C4 for the maximum-duration filter does not hold: with a maximum of 30 minutes and
  no other criterion, the task without estimated duration passes the filter and is
  returned.\<close>

theorem max_bound_counterexample:
  "maxEstimatedMinutes ((request ''Inbox'')\<lparr>maxEstimatedMinutes := Some 30\<rparr>) = Some 30
   \<and> t_estimated_minutes plain_task = MissingValue
   \<and> maxEstimatedMinutesFilter
        (generateOptimizedGetDataByPerspectiveScript ((request ''Inbox'')\<lparr>maxEstimatedMinutes := Some 30\<rparr>))
        plain_task
   \<and> qr_tasks (queryEngine
        (generateOptimizedGetDataByPerspectiveScript ((request ''Inbox'')\<lparr>maxEstimatedMinutes := Some 30\<rparr>))
        1000000 [plain_task] []) = [taskInfo 1000000 plain_task]"
  by (simp add: script_defs filter_defs scan_defs example_levels task_fields)


subsection \<open>Quotas\<close>

text \<open>C2. For a budget \<open>B\<close> from 0 to \<open>2 ^ 51\<close> the capacities of the generated script are
  \<open>floor (B * 0.4)\<close>, \<open>floor (B * 0.4)\<close> and \<open>floor (B * 0.2)\<close>, and the counters of the three
  levels end at most at \<open>floor (B * 0.4)\<close>, \<open>floor (B * 0.4)\<close> and \<open>floor (B * 0.2)\<close>; each counter is the
  number of returned tasks of its level; the three capacities add up to at most \<open>B\<close>, and
  so does the number of returned tasks. The counters are within the same bounds after any
  sequence of iterations, so at every moment of the scan.\<close>

theorem quota_bounds:
  assumes B: "default_to 500 (maxResults params) = B" and pos: "0 \<le> B"
    and range: "B \<le> 2 ^ 51"
    and r: "r = queryEngine (generateOptimizedGetDataByPerspectiveScript params) now ts ps"
  shows "maxHighPriority (generateOptimizedGetDataByPerspectiveScript params)
            = \<lfloor>of_int B * (4 / 10 :: rat)\<rfloor>
       \<and> maxMediumPriority (generateOptimizedGetDataByPerspectiveScript params)
            = \<lfloor>of_int B * (4 / 10 :: rat)\<rfloor>
       \<and> maxLowPriority (generateOptimizedGetDataByPerspectiveScript params)
            = \<lfloor>of_int B * (2 / 10 :: rat)\<rfloor>
       \<and> highPriority (qr_stats r) \<le> \<lfloor>of_int B * (4 / 10 :: rat)\<rfloor>
       \<and> mediumPriority (qr_stats r) \<le> \<lfloor>of_int B * (4 / 10 :: rat)\<rfloor>
       \<and> lowPriority (qr_stats r) \<le> \<lfloor>of_int B * (2 / 10 :: rat)\<rfloor>
       \<and> highPriority (qr_stats r) = int (length (filter (\<lambda>e. e_priorityLevel e = high) (qr_tasks r)))
       \<and> mediumPriority (qr_stats r) = int (length (filter (\<lambda>e. e_priorityLevel e = medium) (qr_tasks r)))
       \<and> lowPriority (qr_stats r) = int (length (filter (\<lambda>e. e_priorityLevel e = low) (qr_tasks r)))
       \<and> \<lfloor>of_int B * (4 / 10 :: rat)\<rfloor> + \<lfloor>of_int B * (4 / 10 :: rat)\<rfloor> + \<lfloor>of_int B * (2 / 10 :: rat)\<rfloor> \<le> B
       \<and> totalFiltered (qr_stats r) \<le> B
       \<and> int (length (qr_tasks r)) = totalFiltered (qr_stats r)
       \<and> (\<forall>visited.
            highCount (foldl (visit (generateOptimizedGetDataByPerspectiveScript params) now)
                        initial visited) \<le> \<lfloor>of_int B * (4 / 10 :: rat)\<rfloor>
          \<and> mediumCount (foldl (visit (generateOptimizedGetDataByPerspectiveScript params) now)
                        initial visited) \<le> \<lfloor>of_int B * (4 / 10 :: rat)\<rfloor>
          \<and> lowCount (foldl (visit (generateOptimizedGetDataByPerspectiveScript params) now)
                        initial visited) \<le> \<lfloor>of_int B * (2 / 10 :: rat)\<rfloor>)"
proof -
  let ?s = "generateOptimizedGetDataByPerspectiveScript params"
  let ?c = "fst (scan ?s now initial ts)"
  have caps: "capacity high ?s = (B * 2) div 5" "capacity medium ?s = (B * 2) div 5"
    "capacity low ?s = B div 5"
    using B pos range
    by (simp_all add: generated_capacities floor_times_0_4_exact floor_times_0_2_exact)
  have nonneg: "0 \<le> (B * 2) div 5" "0 \<le> B div 5" using pos by presburger+
  have h: "highCount ?c \<le> (B * 2) div 5"
    using counter_le_capacity [of high ?s now ts] caps nonneg by simp
  have m: "mediumCount ?c \<le> (B * 2) div 5"
    using counter_le_capacity [of medium ?s now ts] caps nonneg by simp
  have l: "lowCount ?c \<le> B div 5"
    using counter_le_capacity [of low ?s now ts] caps nonneg by simp
  have fh: "highCount ?c = int (length (filter (\<lambda>e. e_priorityLevel e = high) (assemble ?s ?c)))"
    using counter_is_length [of high ?s now ts] by (simp add: tier_filter)
  have fm: "mediumCount ?c = int (length (filter (\<lambda>e. e_priorityLevel e = medium) (assemble ?s ?c)))"
    using counter_is_length [of medium ?s now ts] by (simp add: tier_filter)
  have fl: "lowCount ?c = int (length (filter (\<lambda>e. e_priorityLevel e = low) (assemble ?s ?c)))"
    using counter_is_length [of low ?s now ts] by (simp add: tier_filter)
  have len: "int (length (assemble ?s ?c)) = highCount ?c + mediumCount ?c + lowCount ?c"
    using counter_is_length [of high ?s now ts] counter_is_length [of medium ?s now ts]
      counter_is_length [of low ?s now ts]
    by (simp add: length_assemble)
  have sum: "(B * 2) div 5 + (B * 2) div 5 + B div 5 \<le> B" using pos by (rule capacities_sum)
  have st: "highPriority (qr_stats r) = highCount ?c" "mediumPriority (qr_stats r) = mediumCount ?c"
    "lowPriority (qr_stats r) = lowCount ?c"
    "totalFiltered (qr_stats r) = highCount ?c + mediumCount ?c + lowCount ?c"
    "qr_tasks r = assemble ?s ?c"
    unfolding r by (simp_all add: queryEngine_def Let_def)
  have always: "counter lvl (foldl (visit ?s now) initial visited) \<le> capacity lvl ?s"
    if "0 \<le> capacity lvl ?s" for lvl visited
  proof -
    have "counter lvl initial = 0" by (cases lvl) (simp_all add: initial_def)
    with foldl_visit_bucket [of visited lvl ?s now initial] that show ?thesis by auto
  qed
  have ah: "highCount (foldl (visit ?s now) initial visited) \<le> (B * 2) div 5" for visited
    using always [of high visited] caps nonneg by simp
  have am: "mediumCount (foldl (visit ?s now) initial visited) \<le> (B * 2) div 5" for visited
    using always [of medium visited] caps nonneg by simp
  have al: "lowCount (foldl (visit ?s now) initial visited) \<le> B div 5" for visited
    using always [of low visited] caps nonneg by simp
  have cs: "maxHighPriority ?s = (B * 2) div 5" "maxMediumPriority ?s = (B * 2) div 5"
    "maxLowPriority ?s = B div 5"
    using caps by simp_all
  show ?thesis
    unfolding st floor_shares cs using h m l fh fm fl len sum ah am al by simp
qed

theorem quota_bounds_witness:
  "default_to 500 (maxResults (budget_request 10)) = 10 \<and> (0::int) \<le> 10
   \<and> highPriority (qr_stats (queryEngine
        (generateOptimizedGetDataByPerspectiveScript (budget_request 10)) 1000000 scenario_tasks [])) \<le> 4
   \<and> mediumPriority (qr_stats (queryEngine
        (generateOptimizedGetDataByPerspectiveScript (budget_request 10)) 1000000 scenario_tasks [])) \<le> 4
   \<and> lowPriority (qr_stats (queryEngine
        (generateOptimizedGetDataByPerspectiveScript (budget_request 10)) 1000000 scenario_tasks [])) \<le> 2
   \<and> totalFiltered (qr_stats (queryEngine
        (generateOptimizedGetDataByPerspectiveScript (budget_request 10)) 1000000 scenario_tasks [])) \<le> 10"
proof -
  have a: "default_to 500 (maxResults (budget_request 10)) = 10"
    by (simp add: request_defs request_def default_to_def)
  have b: "(0::int) \<le> 10" by simp
  have c: "(10::int) \<le> 2 ^ 51" by simp
  have f: "\<lfloor>rat_of_int 10 * (4 / 10)\<rfloor> = 4" "\<lfloor>rat_of_int 10 * (2 / 10)\<rfloor> = 2" by simp_all
  from quota_bounds [OF a b c refl, of 1000000 scenario_tasks "[]"] a b c show ?thesis
    unfolding f by simp
qed

text \<open>C2 for every budget does not hold: for the budget 6755556867305064, an integer below
  \<open>2 ^ 53\<close>, the script is generated with the capacities 2702222746922026,
  2702222746922026 and 1351111373461013, which add up to one more than the budget; the
  first of them is above \<open>floor (B * 0.4)\<close>.\<close>

theorem huge_budget_counterexample:
  "lit_maxResults (generateOptimizedGetDataByPerspectiveScript (budget_request 6755556867305064))
      = 6755556867305064
   \<and> maxHighPriority (generateOptimizedGetDataByPerspectiveScript (budget_request 6755556867305064))
      = 2702222746922026
   \<and> maxMediumPriority (generateOptimizedGetDataByPerspectiveScript (budget_request 6755556867305064))
      = 2702222746922026
   \<and> maxLowPriority (generateOptimizedGetDataByPerspectiveScript (budget_request 6755556867305064))
      = 1351111373461013
   \<and> \<not> (maxHighPriority (generateOptimizedGetDataByPerspectiveScript (budget_request 6755556867305064))
         + maxMediumPriority (generateOptimizedGetDataByPerspectiveScript (budget_request 6755556867305064))
         + maxLowPriority (generateOptimizedGetDataByPerspectiveScript (budget_request 6755556867305064))
        \<le> lit_maxResults (generateOptimizedGetDataByPerspectiveScript (budget_request 6755556867305064)))
   \<and> \<not> (maxHighPriority (generateOptimizedGetDataByPerspectiveScript (budget_request 6755556867305064))
        \<le> \<lfloor>of_int 6755556867305064 * (4 / 10 :: rat)\<rfloor>)"
proof -
  have b: "default_to 500 (maxResults (budget_request 6755556867305064)) = 6755556867305064"
    by (simp add: budget_request_def request_def default_to_def)
  have f: "\<lfloor>of_int 6755556867305064 * (4 / 10 :: rat)\<rfloor> = (6755556867305064 * 2) div 5"
    by (rule floor_shares)
  show ?thesis
    unfolding generated_capacities b f floor_times_huge by simp
qed


text \<open>C10. With a budget of at most 2 the answer has no task and all counters are 0,
  whatever the stream; for a budget from 0 to 2 the three capacities are 0. With a budget
  below 5 no task of level low is returned and the low counter is 0; for a budget from 0
  to 4 the low capacity is 0.\<close>

theorem small_budget:
  assumes r: "r = queryEngine (generateOptimizedGetDataByPerspectiveScript params) now ts ps"
    and B: "B = default_to 500 (maxResults params)"
    and s: "s = generateOptimizedGetDataByPerspectiveScript params"
  shows "(B \<le> 2 \<longrightarrow>
            qr_tasks r = [] \<and> highPriority (qr_stats r) = 0 \<and> mediumPriority (qr_stats r) = 0
            \<and> lowPriority (qr_stats r) = 0 \<and> totalFiltered (qr_stats r) = 0
            \<and> (0 \<le> B \<longrightarrow> maxHighPriority s = 0 \<and> maxMediumPriority s = 0 \<and> maxLowPriority s = 0))
       \<and> (B < 5 \<longrightarrow>
            (\<forall>e\<in>set (qr_tasks r). e_priorityLevel e \<noteq> low) \<and> lowPriority (qr_stats r) = 0
            \<and> (0 \<le> B \<longrightarrow> maxLowPriority s = 0))"
proof (intro conjI impI)
  let ?c = "fst (scan s now initial ts)"
  have caps: "maxHighPriority s = floor_times_0_4 B" "maxMediumPriority s = floor_times_0_4 B"
    "maxLowPriority s = floor_times_0_2 B"
    unfolding s B by (simp_all add: generated_capacities)
  have t: "qr_tasks r = assemble s ?c" "highPriority (qr_stats r) = highCount ?c"
    "mediumPriority (qr_stats r) = mediumCount ?c" "lowPriority (qr_stats r) = lowCount ?c"
    "totalFiltered (qr_stats r) = highCount ?c + mediumCount ?c + lowCount ?c"
    unfolding r s by (simp_all add: queryEngine_def Let_def)
  {
    assume le: "B \<le> 2"
    have "floor_times_0_4 B \<le> 0" "floor_times_0_2 B \<le> 0"
      using le by (simp_all add: floor_times_small)
    then have "allFull s initial" by (simp add: allFull_def caps initial_def)
    then have c: "?c = initial" by (simp add: scan_full)
    show "qr_tasks r = []" unfolding t c by (simp add: assemble_def initial_def)
    show "highPriority (qr_stats r) = 0" unfolding t c by (simp add: initial_def)
    show "mediumPriority (qr_stats r) = 0" unfolding t c by (simp add: initial_def)
    show "lowPriority (qr_stats r) = 0" unfolding t c by (simp add: initial_def)
    show "totalFiltered (qr_stats r) = 0" unfolding t c by (simp add: initial_def)
    assume "0 \<le> B"
    with le show "maxHighPriority s = 0" "maxMediumPriority s = 0" "maxLowPriority s = 0"
      unfolding caps by (simp_all add: floor_times_small)
  }
  {
    assume lt: "B < 5"
    have cap: "capacity low s \<le> 0"
      using lt unfolding capacity.simps caps by (rule floor_times_small)
    from scan_initial_bucket [of ts low s now] obtain xs where xs:
      "bucket low ?c = map (taskInfo now) xs" "counter low ?c = int (length xs)"
      "counter low ?c \<le> max 0 (capacity low s)"
      by blast
    from xs(2,3) cap have "xs = []" by simp
    with xs have e: "lowPriorityTasks ?c = []" "lowCount ?c = 0" by simp_all
    have "filter (\<lambda>e. e_priorityLevel e = low) (assemble s ?c) = []"
      using tier_filter [of low s now ts] e by simp
    then show "\<forall>e\<in>set (qr_tasks r). e_priorityLevel e \<noteq> low"
      unfolding t by (simp add: filter_empty_conv)
    show "lowPriority (qr_stats r) = 0" unfolding t using e by simp
    assume "0 \<le> B"
    with lt show "maxLowPriority s = 0" unfolding caps by (simp add: floor_times_small)
  }
qed

theorem small_budget_witness:
  "(2::int) \<le> 2
   \<and> qr_tasks (queryEngine (generateOptimizedGetDataByPerspectiveScript (budget_request 2))
        1000000 scenario_tasks []) = []
   \<and> totalFiltered (qr_stats (queryEngine (generateOptimizedGetDataByPerspectiveScript (budget_request 2))
        1000000 scenario_tasks [])) = 0
   \<and> maxHighPriority (generateOptimizedGetDataByPerspectiveScript (budget_request 2)) = 0
   \<and> (4::int) < 5
   \<and> lowPriority (qr_stats (queryEngine (generateOptimizedGetDataByPerspectiveScript (budget_request 4))
        1000000 scenario_tasks [])) = 0
   \<and> maxLowPriority (generateOptimizedGetDataByPerspectiveScript (budget_request 4)) = 0"
proof -
  have b2: "(2::int) = default_to 500 (maxResults (budget_request 2))"
    and b4: "(4::int) = default_to 500 (maxResults (budget_request 4))"
    by (simp_all add: request_defs request_def default_to_def)
  from small_budget [OF refl b2 refl, of 1000000 scenario_tasks "[]"]
  have two: "qr_tasks (queryEngine (generateOptimizedGetDataByPerspectiveScript (budget_request 2))
        1000000 scenario_tasks []) = []
     \<and> totalFiltered (qr_stats (queryEngine (generateOptimizedGetDataByPerspectiveScript (budget_request 2))
        1000000 scenario_tasks [])) = 0
     \<and> maxHighPriority (generateOptimizedGetDataByPerspectiveScript (budget_request 2)) = 0"
    by simp
  from small_budget [OF refl b4 refl, of 1000000 scenario_tasks "[]"]
  have four: "lowPriority (qr_stats (queryEngine (generateOptimizedGetDataByPerspectiveScript (budget_request 4))
        1000000 scenario_tasks [])) = 0
     \<and> maxLowPriority (generateOptimizedGetDataByPerspectiveScript (budget_request 4)) = 0"
    by simp
  from two four show ?thesis by simp
qed


subsection \<open>Early termination\<close>

text \<open>C3. The scan visits a prefix of the stream, so at most as many tasks as the stream
  has, and leaves the rest unvisited; it leaves tasks unvisited only when all three
  counters have reached their capacities. Once they have, no further task is visited:
  whatever tasks follow, they are all in the unvisited rest, and the collector is the same.\<close>

theorem scan_early_termination:
  "(\<exists>visited. ts = visited @ snd (scan s now c ts)
        \<and> length visited \<le> length ts
        \<and> fst (scan s now c ts) = foldl (visit s now) c visited)
   \<and> (snd (scan s now c ts) \<noteq> [] \<longrightarrow> allFull s (fst (scan s now c ts)))
   \<and> (allFull s c \<longrightarrow> scan s now c ts = (c, ts))
   \<and> (allFull s (fst (scan s now c ts)) \<longrightarrow>
        (\<forall>later. scan s now c (ts @ later)
                    = (fst (scan s now c ts), snd (scan s now c ts) @ later)))"
proof (intro conjI impI allI)
  obtain pre where pre: "ts = pre @ snd (scan s now c ts)"
    "fst (scan s now c ts) = foldl (visit s now) c pre"
    using scan_prefix by blast
  have "length ts = length pre + length (snd (scan s now c ts))"
    by (subst pre(1)) (simp only: length_append)
  then have "length pre \<le> length ts" by simp
  with pre show "\<exists>visited. ts = visited @ snd (scan s now c ts)
        \<and> length visited \<le> length ts
        \<and> fst (scan s now c ts) = foldl (visit s now) c visited"
    by blast
next
  assume "snd (scan s now c ts) \<noteq> []"
  then show "allFull s (fst (scan s now c ts))" by (rule scan_stops_full)
next
  assume "allFull s c"
  then show "scan s now c ts = (c, ts)" by (rule scan_full)
next
  fix later
  assume "allFull s (fst (scan s now c ts))"
  then show "scan s now c (ts @ later) = (fst (scan s now c ts), snd (scan s now c ts) @ later)"
    by (rule scan_append_full)
qed

lemma filling_scan:
  "allFull (generateOptimizedGetDataByPerspectiveScript (budget_request 5))
     (fst (scan (generateOptimizedGetDataByPerspectiveScript (budget_request 5)) 1000000 initial
            filling_tasks))"
  "snd (scan (generateOptimizedGetDataByPerspectiveScript (budget_request 5)) 1000000 initial
            filling_tasks) = [plain_task]"
  by (simp_all add: request_defs script_defs filter_defs scan_defs example_levels task_fields
      filling_tasks_def)

theorem scan_early_termination_witness:
  "allFull (generateOptimizedGetDataByPerspectiveScript (budget_request 5))
     (fst (scan (generateOptimizedGetDataByPerspectiveScript (budget_request 5)) 1000000 initial
            filling_tasks))
   \<and> scan (generateOptimizedGetDataByPerspectiveScript (budget_request 5)) 1000000 initial
        (filling_tasks @ [overdue_task, tomorrow_task])
      = (fst (scan (generateOptimizedGetDataByPerspectiveScript (budget_request 5)) 1000000 initial
            filling_tasks),
         [plain_task, overdue_task, tomorrow_task])"
proof -
  let ?s = "generateOptimizedGetDataByPerspectiveScript (budget_request 5)"
  have full: "allFull ?s (fst (scan ?s 1000000 initial filling_tasks))" by (rule filling_scan)
  from scan_early_termination [of filling_tasks ?s 1000000 initial] full
  have "scan ?s 1000000 initial (filling_tasks @ [overdue_task, tomorrow_task])
      = (fst (scan ?s 1000000 initial filling_tasks),
         snd (scan ?s 1000000 initial filling_tasks) @ [overdue_task, tomorrow_task])"
    by blast
  with full show ?thesis by (simp add: filling_scan(2))
qed


subsection \<open>Score\<close>

text \<open>C5. The urgency score of an entry is the sum of three contributions: 100 for a
  flagged task; for the due date 200 when it is past, 150 when it is less than one day
  ahead, 100 when less than two days, 50 when less than eight days, and 0 otherwise or
  without a due date; for the estimated duration 30 up to 15 minutes, 20 up to 30, 10 up to
  60, and 0 otherwise or without a duration. Changing any other field of the task leaves
  the score as it is.\<close>

theorem urgency_score_sum:
  "e_urgencyScore (taskInfo now t) =
      (if t_flagged t then 100 else 0)
    + (case t_due_date t of
         Got due \<Rightarrow>
           (if due < now then 200
            else if due < now + 86400 then 150
            else if due < now + 2 * 86400 then 100
            else if due < now + 8 * 86400 then 50
            else 0)
       | MissingValue \<Rightarrow> 0
       | Raised \<Rightarrow> 0)
    + (case t_estimated_minutes t of
         Got minutes \<Rightarrow>
           (if minutes \<le> 15 then 30
            else if minutes \<le> 30 then 20
            else if minutes \<le> 60 then 10
            else 0)
       | MissingValue \<Rightarrow> 0
       | Raised \<Rightarrow> 0)
   \<and> e_urgencyScore
        (taskInfo now
          (t\<lparr> t_id := a, t_name := b, t_note := c, t_completed := d, t_dropped := e,
              t_defer_date := f, t_tags := g, t_containing_project := h \<rparr>))
      = e_urgencyScore (taskInfo now t)"
  by (simp add: taskInfo_def urgencyScore_def flaggedScore_def dueDateScore_def
      estimatedMinutesScore_def daysDiff_less split: property.split)


subsection \<open>Order\<close>

text \<open>C6. The task list of the answer is the concatenation of its entries of level high,
  medium and low, in this order when urgent tasks come first (the default) and in the
  reverse order otherwise; the entries of each level are those of a subsequence of the
  stream, in the order of the stream.\<close>

theorem tier_order:
  assumes r: "r = queryEngine (generateOptimizedGetDataByPerspectiveScript params) now ts ps"
  shows "qr_tasks r =
          (if default_to True (prioritizeUrgent params)
           then tier high (qr_tasks r) @ tier medium (qr_tasks r) @ tier low (qr_tasks r)
           else tier low (qr_tasks r) @ tier medium (qr_tasks r) @ tier high (qr_tasks r))
       \<and> (\<forall>lvl. \<exists>xs. subseq xs ts \<and> tier lvl (qr_tasks r) = map (taskInfo now) xs)"
proof -
  let ?s = "generateOptimizedGetDataByPerspectiveScript params"
  let ?c = "fst (scan ?s now initial ts)"
  have t: "qr_tasks r = assemble ?s ?c" unfolding r by (simp add: queryEngine_def Let_def)
  have tiers: "tier lvl (qr_tasks r) = bucket lvl ?c" for lvl
    unfolding t tier_def by (rule tier_filter)
  have u: "lit_prioritizeUrgent ?s = default_to True (prioritizeUrgent params)"
    by (simp add: generateOptimizedGetDataByPerspectiveScript_def Let_def)
  have 1: "qr_tasks r =
          (if default_to True (prioritizeUrgent params)
           then tier high (qr_tasks r) @ tier medium (qr_tasks r) @ tier low (qr_tasks r)
           else tier low (qr_tasks r) @ tier medium (qr_tasks r) @ tier high (qr_tasks r))"
    unfolding tiers unfolding t by (simp add: assemble_def u)
  have 2: "\<exists>xs. subseq xs ts \<and> tier lvl (qr_tasks r) = map (taskInfo now) xs" for lvl
    unfolding tiers using scan_initial_bucket [of ts lvl ?s now] by blast
  from 1 2 show ?thesis by blast
qed

theorem tier_order_witness:
  "qr_tasks (queryEngine (generateOptimizedGetDataByPerspectiveScript (budget_request 10))
        1000000 scenario_tasks [])
     = tier high (qr_tasks (queryEngine (generateOptimizedGetDataByPerspectiveScript (budget_request 10))
        1000000 scenario_tasks []))
     @ tier medium (qr_tasks (queryEngine (generateOptimizedGetDataByPerspectiveScript (budget_request 10))
        1000000 scenario_tasks []))
     @ tier low (qr_tasks (queryEngine (generateOptimizedGetDataByPerspectiveScript (budget_request 10))
        1000000 scenario_tasks []))
   \<and> (\<exists>xs. subseq xs scenario_tasks
         \<and> tier medium (qr_tasks (queryEngine (generateOptimizedGetDataByPerspectiveScript (budget_request 10))
              1000000 scenario_tasks []))
           = map (taskInfo 1000000) xs)"
proof -
  have u: "default_to True (prioritizeUrgent (budget_request 10))"
    by (simp add: request_defs request_def default_to_def)
  from tier_order [OF refl, of "budget_request 10" 1000000 scenario_tasks "[]"] u
  show ?thesis by simp
qed


subsection \<open>Projects\<close>

text \<open>C7. The optimised script returns an entry for every project of the document, in
  order, whatever the toggle says; no score, level or quota is involved. In particular a
  project with status done is returned to a request that leaves hiding completed items
  switched on.\<close>

theorem done_project_returned:
  "qr_projects (queryEngine s now ts ps) = map projectInfo ps
   \<and> lit_hideCompleted (generateOptimizedGetDataByPerspectiveScript (request ''Projects''))
   \<and> qr_projects (queryEngine (generateOptimizedGetDataByPerspectiveScript (request ''Projects''))
        1000000 [] [done_project]) = [projectInfo done_project]
   \<and> pe_status (projectInfo done_project) = done_status"
  by (simp add: engine_projects script_defs projectInfo_def done_project_def)


text \<open>The project loop of the plain variant drops the same project.\<close>

lemma plain_variant_hides_done_project:
  "plain_project_loop True n [] [done_project] = []"
  by (simp add: plain_project_loop_filter done_project_def)


subsection \<open>The wrapper\<close>

text \<open>C8. The wrapper validates nothing: whatever the budget, it hands the
  generated script to the provider exactly once. Without a budget the script is generated
  for 500, with capacities 200, 200 and 100. With a budget of at most 0 all three
  capacities are at most 0, so the scan of that script visits no task and the answer has
  no task and a total of 0.\<close>

theorem no_budget_validation:
  assumes s: "s = generateOptimizedGetDataByPerspectiveScript params"
  shows "snd (getDataByPerspective rt params) = [s]
     \<and> (maxResults params = None \<longrightarrow>
          lit_maxResults s = 500 \<and> maxHighPriority s = 200 \<and> maxMediumPriority s = 200
          \<and> maxLowPriority s = 100)
     \<and> (\<forall>B. maxResults params = Some B \<and> B \<le> 0 \<longrightarrow>
          lit_maxResults s = B
          \<and> maxHighPriority s \<le> 0 \<and> maxMediumPriority s \<le> 0 \<and> maxLowPriority s \<le> 0
          \<and> scan s now initial ts = (initial, ts)
          \<and> qr_tasks (queryEngine s now ts ps) = []
          \<and> totalFiltered (qr_stats (queryEngine s now ts ps)) = 0)"
proof (intro conjI allI impI)
  show "snd (getDataByPerspective rt params) = [s]"
    unfolding s by (simp add: getDataByPerspective_def Let_def)
next
  assume n: "maxResults params = None"
  then show "lit_maxResults s = 500" "maxHighPriority s = 200" "maxMediumPriority s = 200"
    "maxLowPriority s = 100"
    unfolding s
    by (simp_all add: generated_capacities default_to_def floor_times_0_4_exact
        floor_times_0_2_exact)
next
  fix B
  assume b: "maxResults params = Some B \<and> B \<le> 0"
  then have caps: "lit_maxResults s = B" "maxHighPriority s = floor_times_0_4 B"
    "maxMediumPriority s = floor_times_0_4 B" "maxLowPriority s = floor_times_0_2 B"
    unfolding s by (simp_all add: generated_capacities default_to_def)
  from b have b0: "B \<le> 0" by simp
  from b0 have le: "floor_times_0_4 B \<le> 0" "floor_times_0_2 B \<le> 0"
    by (rule floor_times_nonpos)+
  show "lit_maxResults s = B" by (rule caps)
  show h: "maxHighPriority s \<le> 0" using caps le by simp
  show m: "maxMediumPriority s \<le> 0" using caps le by simp
  show l: "maxLowPriority s \<le> 0" using caps le by simp
  from h m l have full: "allFull s initial" by (simp add: allFull_def initial_def)
  then show sc: "scan s now initial ts = (initial, ts)" by (rule scan_full)
  from sc have c: "fst (scan s now initial ts) = initial" by simp
  have "qr_tasks (queryEngine s now ts ps) = assemble s initial"
    by (simp add: queryEngine_def Let_def c)
  then show "qr_tasks (queryEngine s now ts ps) = []"
    by (simp add: assemble_def initial_def)
  have "totalFiltered (qr_stats (queryEngine s now ts ps))
      = highCount initial + mediumCount initial + lowCount initial"
    by (simp add: queryEngine_def Let_def c)
  then show "totalFiltered (qr_stats (queryEngine s now ts ps)) = 0"
    by (simp add: initial_def)
qed

theorem no_budget_validation_witness:
  "maxResults (budget_request 0) = Some 0 \<and> (0::int) \<le> 0
   \<and> snd (getDataByPerspective (canned_runtime empty_answer_text empty_answer_json) (budget_request 0))
       = [generateOptimizedGetDataByPerspectiveScript (budget_request 0)]
   \<and> scan (generateOptimizedGetDataByPerspectiveScript (budget_request 0)) 1000000 initial scenario_tasks
       = (initial, scenario_tasks)
   \<and> qr_tasks (queryEngine (generateOptimizedGetDataByPerspectiveScript (budget_request 0))
        1000000 scenario_tasks []) = []"
proof -
  have a: "maxResults (budget_request 0) = Some 0 \<and> (0::int) \<le> 0"
    by (simp add: request_defs request_def)
  from no_budget_validation [OF refl, of "canned_runtime empty_answer_text empty_answer_json"
      "budget_request 0" 1000000 scenario_tasks "[]"] a
  show ?thesis by blast
qed


text \<open>C8 with a validation of the budget does not hold: with budget 0 and a provider
  that prints the answer for an empty document, the wrapper calls the provider and returns
  a success.\<close>

theorem zero_budget_counterexample:
  "success (fst (getDataByPerspective (canned_runtime empty_answer_text empty_answer_json)
                  ((request ''Inbox'')\<lparr>maxResults := Some 0\<rparr>)))
   \<and> error (fst (getDataByPerspective (canned_runtime empty_answer_text empty_answer_json)
                  ((request ''Inbox'')\<lparr>maxResults := Some 0\<rparr>))) = None
   \<and> snd (getDataByPerspective (canned_runtime empty_answer_text empty_answer_json)
                  ((request ''Inbox'')\<lparr>maxResults := Some 0\<rparr>))
       = [generateOptimizedGetDataByPerspectiveScript ((request ''Inbox'')\<lparr>maxResults := Some 0\<rparr>)]"
  by (simp add: getDataByPerspective_def canned_runtime_def empty_answer_json_def read_result_def
      optional_map_def Let_def)


text \<open>C9. When the provider's output parses to an object whose \<open>success\<close> is \<open>false\<close> and
  whose \<open>error\<close> is a message, the wrapper returns a failure with exactly that message and
  without task list, project list, perspective or statistics, after a single call of the
  provider.\<close>

theorem provider_failure_passed_on:
  assumes "execAsync rt (generateOptimizedGetDataByPerspectiveScript params) = Inr stdout"
    and "JSON_parse rt (trim stdout) = Inr response"
    and "member response ''success'' = Some (JBool False)"
    and "member response ''error'' = Some (JStr msg)"
  shows "getDataByPerspective rt params =
          (\<lparr> success = False, perspective = None, tasks = None, projects = None, stats = None,
              error = Some (JStr msg) \<rparr>,
           [generateOptimizedGetDataByPerspectiveScript params])"
proof -
  from assms(3) have "response \<noteq> JNull" by auto
  with assms(3,4) have "read_result (TypeError_message rt) response = Inr (failure (Some (JStr msg)))"
    by (simp add: read_result_def)
  with assms(1,2) show ?thesis
    by (simp add: getDataByPerspective_def Let_def failure_def)
qed

theorem provider_failure_passed_on_witness:
  "getDataByPerspective (canned_runtime not_found_text not_found_json) (request ''Nowhere'') =
     (\<lparr> success = False, perspective = None, tasks = None, projects = None, stats = None,
         error = Some (JStr ''Perspective not found'') \<rparr>,
      [generateOptimizedGetDataByPerspectiveScript (request ''Nowhere'')])"
proof -
  let ?rt = "canned_runtime not_found_text not_found_json"
  have 1: "execAsync ?rt (generateOptimizedGetDataByPerspectiveScript (request ''Nowhere''))
      = Inr not_found_text"
    by (simp add: canned_runtime_def)
  have 2: "JSON_parse ?rt (trim not_found_text) = Inr not_found_json"
    by (simp add: canned_runtime_def)
  have 3: "member not_found_json ''success'' = Some (JBool False)"
    by (simp add: not_found_json_def)
  have 4: "member not_found_json ''error'' = Some (JStr ''Perspective not found'')"
    by (simp add: not_found_json_def)
  from provider_failure_passed_on [OF 1 2 3 4] show ?thesis .
qed


end
